theory Spec2Isabelle
  imports Complex_Main "HOL-Library.Word"
begin

section \<open>Auto-Slideshow: the frame pipeline of \<^verbatim>\<open>auto_slideshow.py\<close>\<close>

text \<open>
  Python floats are modelled as exact rationals (\<^typ>\<open>rat\<close>); Python's unbounded
  integers as \<^typ>\<open>int\<close>. The conversion \<^verbatim>\<open>int(x)\<close> of a float truncates
  toward zero.
\<close>

subsection \<open>Errors\<close>

datatype value_error =
    TransitionTimeExceeds
  | CouldNotReadImage string
  | CouldNotOpenOutput
  | CouldNotBroadcast

datatype error =
    ValueError value_error
  | ZeroDivisionError
  | IndexError
  | CvError
  | NoneFrameError

definition bind_err :: "error + 'a \<Rightarrow> ('a \<Rightarrow> error + 'b) \<Rightarrow> error + 'b" where
  "bind_err m f = (case m of Inl e \<Rightarrow> Inl e | Inr x \<Rightarrow> f x)"

subsection \<open>Numbers\<close>

definition py_int :: "rat \<Rightarrow> int" where
  "py_int x = (if 0 \<le> x then \<lfloor>x\<rfloor> else \<lceil>x\<rceil>)"

definition py_truediv :: "rat \<Rightarrow> rat \<Rightarrow> error + rat" where
  "py_truediv a b = (if b = 0 then Inl ZeroDivisionError else Inr (a / b))"

subsection \<open>Timing (\<^verbatim>\<open>create_slideshow\<close>, lines 295--306, 332, 348, 361, 370)\<close>

definition total_transitions :: "nat \<Rightarrow> int" where
  "total_transitions num_images = int num_images - 1"

definition total_transition_time :: "rat \<Rightarrow> nat \<Rightarrow> rat" where
  "total_transition_time transition_duration num_images =
     of_int (total_transitions num_images) * transition_duration"

definition remaining_time :: "rat \<Rightarrow> rat \<Rightarrow> nat \<Rightarrow> rat" where
  "remaining_time video_duration transition_duration num_images =
     video_duration - total_transition_time transition_duration num_images"

definition compute_image_duration :: "rat \<Rightarrow> rat \<Rightarrow> nat \<Rightarrow> error + rat" where
  "compute_image_duration video_duration transition_duration num_images =
     (if remaining_time video_duration transition_duration num_images \<le> 0
      then Inl (ValueError TransitionTimeExceeds)
      else py_truediv (remaining_time video_duration transition_duration num_images)
             (of_nat num_images))"

definition frames_per_image :: "rat \<Rightarrow> int \<Rightarrow> int" where
  "frames_per_image image_duration frame_rate = py_int (image_duration * of_int frame_rate)"

definition transition_frames :: "rat \<Rightarrow> int \<Rightarrow> int" where
  "transition_frames transition_duration frame_rate =
     py_int (transition_duration * of_int frame_rate)"

definition total_frames :: "rat \<Rightarrow> int \<Rightarrow> int" where
  "total_frames video_duration frame_rate = py_int (video_duration * of_int frame_rate)"

subsection \<open>Frames: numpy arrays of shape \<open>(h, w, 3)\<close> with 8-bit samples\<close>

type_synonym pixel = "8 word \<times> 8 word \<times> 8 word"

datatype frame = Frame (fr_h: nat) (fr_w: nat) (fr_px: "pixel list list")

definition wf_frame :: "frame \<Rightarrow> bool" where
  "wf_frame f = (length (fr_px f) = fr_h f \<and> list_all (\<lambda>r. length r = fr_w f) (fr_px f))"

definition get_px :: "frame \<Rightarrow> nat \<Rightarrow> nat \<Rightarrow> pixel" where
  "get_px f y x = fr_px f ! y ! x"

definition tabulate :: "nat \<Rightarrow> nat \<Rightarrow> (nat \<Rightarrow> nat \<Rightarrow> pixel) \<Rightarrow> frame" where
  "tabulate h w g = Frame h w (map (\<lambda>y. map (g y) [0..<w]) [0..<h])"

definition zeros_like :: "frame \<Rightarrow> frame" where
  "zeros_like f = tabulate (fr_h f) (fr_w f) (\<lambda>y x. (0, 0, 0))"

text \<open>
  Python slice bounds over an axis of length \<open>n\<close>: a negative bound counts from the
  end, and every bound is clipped to \<open>[0, n]\<close>. An omitted bound is \<open>None\<close>.
\<close>

definition norm_index :: "int \<Rightarrow> nat \<Rightarrow> nat" where
  "norm_index k n = (if k < 0 then nat (max 0 (k + int n)) else min (nat k) n)"

definition slice_start :: "int option \<Rightarrow> nat \<Rightarrow> nat" where
  "slice_start b n = (case b of None \<Rightarrow> 0 | Some k \<Rightarrow> norm_index k n)"

definition slice_stop :: "int option \<Rightarrow> nat \<Rightarrow> nat" where
  "slice_stop b n = (case b of None \<Rightarrow> n | Some k \<Rightarrow> norm_index k n)"

text \<open>\<^verbatim>\<open>f[ra:rb, ca:cb]\<close>\<close>

definition np_slice :: "frame \<Rightarrow> int option \<Rightarrow> int option \<Rightarrow> int option \<Rightarrow> int option \<Rightarrow> frame" where
  "np_slice f ra rb ca cb =
     (let r0 = slice_start ra (fr_h f); r1 = slice_stop rb (fr_h f);
          c0 = slice_start ca (fr_w f); c1 = slice_stop cb (fr_w f)
      in tabulate (r1 - r0) (c1 - c0) (\<lambda>y x. get_px f (r0 + y) (c0 + x)))"

text \<open>
  \<^verbatim>\<open>dst[ra:rb, ca:cb] = src\<close> on a copy of \<open>dst\<close>: numpy broadcasts \<open>src\<close> to the
  shape of the region (an axis of length 1 is repeated) and raises ValueError when the
  shapes are incompatible.
\<close>

definition np_assign ::
  "frame \<Rightarrow> int option \<Rightarrow> int option \<Rightarrow> int option \<Rightarrow> int option \<Rightarrow> frame \<Rightarrow> error + frame" where
  "np_assign dst ra rb ca cb src =
     (let r0 = slice_start ra (fr_h dst); r1 = slice_stop rb (fr_h dst);
          c0 = slice_start ca (fr_w dst); c1 = slice_stop cb (fr_w dst);
          rh = r1 - r0; rw = c1 - c0
      in if (fr_h src = rh \<or> fr_h src = 1) \<and> (fr_w src = rw \<or> fr_w src = 1)
         then Inr (tabulate (fr_h dst) (fr_w dst)
                (\<lambda>y x. if r0 \<le> y \<and> y < r0 + rh \<and> c0 \<le> x \<and> x < c0 + rw
                       then get_px src (if fr_h src = 1 then 0 else y - r0)
                                       (if fr_w src = 1 then 0 else x - c0)
                       else get_px dst y x))
         else Inl (ValueError CouldNotBroadcast))"

subsection \<open>The image library (OpenCV)\<close>

text \<open>
  Modelled from the spec: \<^verbatim>\<open>cv2.addWeighted\<close> is a routine of the external image
  library and not part of the source. The spec gives the fade as the per-channel linear
  blend \<open>prev * (1 - progress) + next * progress\<close>, rounded to the nearest integer sample;
  the library saturates to the 8-bit range, rounds a tie to the even neighbour and rejects
  operands of different sizes.
\<close>

definition cv_round :: "rat \<Rightarrow> int" where
  "cv_round x =
     (let f = \<lfloor>x\<rfloor>; d = x - of_int f
      in if d < 1 / 2 then f else if 1 / 2 < d then f + 1 else if even f then f else f + 1)"

definition saturate_u8 :: "int \<Rightarrow> 8 word" where
  "saturate_u8 v = word_of_int (max 0 (min 255 v))"

definition blend_sample :: "8 word \<Rightarrow> rat \<Rightarrow> 8 word \<Rightarrow> rat \<Rightarrow> rat \<Rightarrow> 8 word" where
  "blend_sample a alpha b beta gamma =
     saturate_u8 (cv_round (of_int (uint a) * alpha + of_int (uint b) * beta + gamma))"

definition blend_pixel :: "pixel \<Rightarrow> rat \<Rightarrow> pixel \<Rightarrow> rat \<Rightarrow> rat \<Rightarrow> pixel" where
  "blend_pixel p alpha q beta gamma =
     (case p of (pb, pg, pr) \<Rightarrow> case q of (qb, qg, qr) \<Rightarrow>
        (blend_sample pb alpha qb beta gamma,
         blend_sample pg alpha qg beta gamma,
         blend_sample pr alpha qr beta gamma))"

definition addWeighted :: "frame \<Rightarrow> rat \<Rightarrow> frame \<Rightarrow> rat \<Rightarrow> rat \<Rightarrow> error + frame" where
  "addWeighted src1 alpha src2 beta gamma =
     (if fr_h src1 = fr_h src2 \<and> fr_w src1 = fr_w src2
      then Inr (tabulate (fr_h src1) (fr_w src1)
             (\<lambda>y x. blend_pixel (get_px src1 y x) alpha (get_px src2 y x) beta gamma))
      else Inl CvError)"

text \<open>
  \<^verbatim>\<open>cv2.resize(img, (w, h))\<close>: the interpolation \<open>rs\<close> is a parameter; the library
  rejects an empty source and a target size that is not positive.
\<close>

definition cv2_resize :: "(frame \<Rightarrow> nat \<Rightarrow> nat \<Rightarrow> frame) \<Rightarrow> frame \<Rightarrow> int \<Rightarrow> int \<Rightarrow> error + frame" where
  "cv2_resize rs img w h =
     (if w \<le> 0 \<or> h \<le> 0 \<or> fr_h img = 0 \<or> fr_w img = 0 then Inl CvError
      else Inr (rs img (nat w) (nat h)))"

definition resize_ok :: "(frame \<Rightarrow> nat \<Rightarrow> nat \<Rightarrow> frame) \<Rightarrow> bool" where
  "resize_ok rs = (\<forall>img w h. wf_frame (rs img w h) \<and> fr_h (rs img w h) = h \<and> fr_w (rs img w h) = w)"

subsection \<open>\<^verbatim>\<open>resize_image\<close> (lines 73--97)\<close>

definition resize_image :: "(frame \<Rightarrow> nat \<Rightarrow> nat \<Rightarrow> frame) \<Rightarrow> frame \<Rightarrow> int \<Rightarrow> int \<Rightarrow> error + frame" where
  "resize_image rs img width height =
     (let h = fr_h img; w = fr_w img in
      bind_err (py_truediv (of_nat w) (of_nat h)) (\<lambda>current_ratio.
      bind_err (py_truediv (of_int width) (of_int height)) (\<lambda>target_ratio.
      if \<bar>current_ratio - target_ratio\<bar> < 1 / 100 then cv2_resize rs img width height
      else if current_ratio > target_ratio then
        (let new_h = height; new_w = py_int (of_int height * current_ratio) in
         bind_err (cv2_resize rs img new_w new_h) (\<lambda>img_resized.
           (let start_x = (new_w - width) div 2
            in Inr (np_slice img_resized None None (Some start_x) (Some (start_x + width))))))
      else
        (let new_w = width in
         bind_err (py_truediv (of_int width) current_ratio) (\<lambda>q.
         (let new_h = py_int q in
          bind_err (cv2_resize rs img new_w new_h) (\<lambda>img_resized.
            (let start_y = (new_h - height) div 2
             in Inr (np_slice img_resized (Some start_y) (Some (start_y + height)) None None)))))))))"

subsection \<open>\<^verbatim>\<open>apply_transition\<close> (lines 99--272)\<close>

definition fade :: "frame \<Rightarrow> frame \<Rightarrow> rat \<Rightarrow> error + frame" where
  "fade prev_frame next_frame progress =
     addWeighted prev_frame (1 - progress) next_frame progress 0"

text \<open>
  The two zoom branches share their geometry: \<open>fg\<close> is scaled by \<open>zoom_factor\<close> and
  pasted, centred, onto a copy of \<open>bg\<close>; \<open>h\<close> and \<open>w\<close> are the shape of \<open>prev_frame\<close>.
\<close>

definition zoom_paste ::
  "(frame \<Rightarrow> nat \<Rightarrow> nat \<Rightarrow> frame) \<Rightarrow> nat \<Rightarrow> nat \<Rightarrow> rat \<Rightarrow> frame \<Rightarrow> frame \<Rightarrow> error + frame" where
  "zoom_paste rs h w zoom_factor0 fg bg =
     (let center_x = int w div 2; center_y = int h div 2;
          zoom_factor = (if zoom_factor0 < 1 / 10 then 1 / 10 else zoom_factor0);
          scaled_w = max (py_int (of_nat w * zoom_factor)) 10;
          scaled_h = max (py_int (of_nat h * zoom_factor)) 10
      in bind_err (cv2_resize rs fg scaled_w scaled_h) (\<lambda>scaled.
         (let start_x = max 0 (center_x - scaled_w div 2);
              start_y = max 0 (center_y - scaled_h div 2);
              end_x = min (int w) (start_x + scaled_w);
              end_y = min (int h) (start_y + scaled_h);
              scaled_start_x = (if start_x = 0 then (scaled_w - (end_x - start_x)) div 2 else 0);
              scaled_start_y = (if start_y = 0 then (scaled_h - (end_y - start_y)) div 2 else 0)
          in np_assign bg (Some start_y) (Some end_y) (Some start_x) (Some end_x)
               (np_slice scaled (Some scaled_start_y) (Some (scaled_start_y + (end_y - start_y)))
                                (Some scaled_start_x) (Some (scaled_start_x + (end_x - start_x)))))))"

definition is_value_error :: "error + 'a \<Rightarrow> bool" where
  "is_value_error r = (case r of Inl (ValueError v) \<Rightarrow> True | _ \<Rightarrow> False)"

definition apply_transition ::
  "(frame \<Rightarrow> nat \<Rightarrow> nat \<Rightarrow> frame) \<Rightarrow> frame \<Rightarrow> frame \<Rightarrow> int \<Rightarrow> rat \<Rightarrow> error + frame" where
  "apply_transition rs prev_frame next_frame transition_type progress =
     (let h = fr_h prev_frame; w = fr_w prev_frame in
      if transition_type = 0 then fade prev_frame next_frame progress
      else if transition_type = 1 then
        (let cut = py_int (of_nat w * progress)
         in np_assign prev_frame None None None (Some cut)
              (np_slice next_frame None None None (Some cut)))
      else if transition_type = 2 then
        (let cut = py_int (of_nat w * (1 - progress))
         in np_assign prev_frame None None (Some cut) None
              (np_slice next_frame None None (Some cut) None))
      else if transition_type = 3 then
        (let cut = py_int (of_nat h * progress)
         in np_assign prev_frame None (Some cut) None None
              (np_slice next_frame None (Some cut) None None))
      else if transition_type = 4 then
        (let cut = py_int (of_nat h * (1 - progress))
         in np_assign prev_frame (Some cut) None None None
              (np_slice next_frame (Some cut) None None None))
      else if transition_type = 5 then
        (let r = zoom_paste rs h w progress next_frame prev_frame
         in if is_value_error r then fade prev_frame next_frame progress else r)
      else if transition_type = 6 then
        (let r = zoom_paste rs h w (1 - progress) prev_frame next_frame
         in if is_value_error r then fade prev_frame next_frame progress else r)
      else if transition_type = 7 then
        (let offset = py_int (of_nat w * progress);
             result = zeros_like prev_frame
         in bind_err (if offset < int w
                      then np_assign result None None None (Some (int w - offset))
                             (np_slice prev_frame None None (Some offset) None)
                      else Inr result) (\<lambda>result.
            if offset > 0
            then np_assign result None None (Some (int w - offset)) None
                   (np_slice next_frame None None None (Some offset))
            else Inr result))
      else if transition_type = 8 then
        (let offset = py_int (of_nat w * progress);
             result = zeros_like prev_frame
         in bind_err (if offset < int w
                      then np_assign result None None (Some offset) None
                             (np_slice prev_frame None None None (Some (int w - offset)))
                      else Inr result) (\<lambda>result.
            if offset > 0
            then np_assign result None None None (Some offset)
                   (np_slice next_frame None None (Some (int w - offset)) None)
            else Inr result))
      else fade prev_frame next_frame progress)"

subsection \<open>\<^verbatim>\<open>create_slideshow\<close> (lines 274--386)\<close>

text \<open>
  The configuration after \<^verbatim>\<open>float(...)\<close> and \<^verbatim>\<open>int(...)\<close> have parsed it, and
  the outside world: the image decoder (\<^verbatim>\<open>cv2.imread\<close>, \<open>None\<close> for a file it cannot
  decode), the interpolation of \<^verbatim>\<open>cv2.resize\<close>, whether the video writer opened, and
  the successive results of \<^verbatim>\<open>random.randint(0, 8)\<close>.
\<close>

record config =
  transition_duration :: rat
  video_duration :: rat
  frame_rate :: int
  transition_type :: string

record env =
  imread :: "string \<Rightarrow> frame option"
  cv_resize :: "frame \<Rightarrow> nat \<Rightarrow> nat \<Rightarrow> frame"
  writer_opened :: bool
  randint :: "nat \<Rightarrow> int"

definition TRANSITIONS :: "string \<Rightarrow> int option" where
  "TRANSITIONS = map_of
     [(''fade'', 0), (''wipe_left'', 1), (''wipe_right'', 2), (''wipe_up'', 3),
      (''wipe_down'', 4), (''zoom_in'', 5), (''zoom_out'', 6), (''slide_left'', 7),
      (''slide_right'', 8)]"

text \<open>
  The loop state: the previous frame, the frame counter, the frames written to the video
  writer (oldest first), the paths skipped with a warning, and the number of random draws.
\<close>

record state =
  prev_image :: "frame option"
  frame_count :: int
  written :: "frame list"
  warnings :: "string list"
  rand_calls :: nat

definition write_frame :: "frame \<Rightarrow> state \<Rightarrow> state" where
  "write_frame fr s = s\<lparr>written := written s @ [fr], frame_count := frame_count s + 1\<rparr>"

text \<open>\<^verbatim>\<open>for _ in range(frames_per_image): if frame_count < total_frames: ...\<close>\<close>

fun emit_copies :: "nat \<Rightarrow> frame \<Rightarrow> int \<Rightarrow> state \<Rightarrow> state" where
  "emit_copies 0 curr_img tot_frames s = s"
| "emit_copies (Suc k) curr_img tot_frames s =
     emit_copies k curr_img tot_frames
       (if frame_count s < tot_frames then write_frame curr_img s else s)"

text \<open>\<^verbatim>\<open>for j in range(transition_frames): if frame_count < total_frames: ...\<close>\<close>

fun emit_transition ::
  "(frame \<Rightarrow> nat \<Rightarrow> nat \<Rightarrow> frame) \<Rightarrow> frame option \<Rightarrow> frame \<Rightarrow> int \<Rightarrow> int \<Rightarrow> int \<Rightarrow>
   nat list \<Rightarrow> state \<Rightarrow> error + state" where
  "emit_transition rs prev curr_img curr_transition n_frames tot_frames [] s = Inr s"
| "emit_transition rs prev curr_img curr_transition n_frames tot_frames (j # js) s =
     (if frame_count s < tot_frames then
        bind_err (py_truediv (of_nat j) (of_int n_frames)) (\<lambda>progress.
        bind_err (case prev of None \<Rightarrow> Inl NoneFrameError
                  | Some prev_frame \<Rightarrow>
                      apply_transition rs prev_frame curr_img curr_transition progress) (\<lambda>fr.
        emit_transition rs prev curr_img curr_transition n_frames tot_frames js (write_frame fr s)))
      else emit_transition rs prev curr_img curr_transition n_frames tot_frames js s)"

text \<open>The frames of one decoded image (lines 345--374).\<close>

definition emit_segments ::
  "env \<Rightarrow> config \<Rightarrow> int option \<Rightarrow> rat \<Rightarrow> int \<Rightarrow> nat \<Rightarrow> frame \<Rightarrow> state \<Rightarrow> error + state" where
  "emit_segments ev cfg fixed_transition image_duration tot_frames i curr_img s =
     (if i = 0 then
        Inr (emit_copies (nat (frames_per_image image_duration (frame_rate cfg)))
               curr_img tot_frames s)
      else
        (let curr_transition =
               (case fixed_transition of None \<Rightarrow> randint ev (rand_calls s)
                | Some t \<Rightarrow> t);
             s1 = (case fixed_transition of None \<Rightarrow> s\<lparr>rand_calls := rand_calls s + 1\<rparr>
                   | Some t \<Rightarrow> s);
             n_frames = transition_frames (transition_duration cfg) (frame_rate cfg)
         in bind_err
              (emit_transition (cv_resize ev) (prev_image s1) curr_img curr_transition
                 n_frames tot_frames [0..<nat n_frames] s1) (\<lambda>s2.
            Inr (emit_copies (nat (frames_per_image image_duration (frame_rate cfg)))
                   curr_img tot_frames s2))))"

text \<open>One iteration of \<^verbatim>\<open>for i, img_path in enumerate(image_files)\<close>.\<close>

definition process_image ::
  "env \<Rightarrow> config \<Rightarrow> int option \<Rightarrow> rat \<Rightarrow> int \<Rightarrow> int \<Rightarrow> int \<Rightarrow> nat \<Rightarrow> string \<Rightarrow> state \<Rightarrow>
   error + state" where
  "process_image ev cfg fixed_transition image_duration tot_frames target_w target_h i img_path s =
     (case imread ev img_path of
        None \<Rightarrow> Inr (s\<lparr>warnings := warnings s @ [img_path]\<rparr>)
      | Some raw \<Rightarrow>
          bind_err (resize_image (cv_resize ev) raw target_w target_h) (\<lambda>curr_img.
          bind_err (emit_segments ev cfg fixed_transition image_duration tot_frames i
                      curr_img s) (\<lambda>s3.
          (let s4 = s3\<lparr>prev_image := Some curr_img\<rparr>
           in bind_err (py_truediv (of_int (frame_count s4)) (of_int tot_frames)) (\<lambda>ratio.
              Inr s4)))))"

fun process_images ::
  "env \<Rightarrow> config \<Rightarrow> int option \<Rightarrow> rat \<Rightarrow> int \<Rightarrow> int \<Rightarrow> int \<Rightarrow> nat \<Rightarrow> string list \<Rightarrow> state \<Rightarrow>
   error + state" where
  "process_images ev cfg fixed_transition image_duration tot_frames target_w target_h i [] s = Inr s"
| "process_images ev cfg fixed_transition image_duration tot_frames target_w target_h i (p # ps) s =
     bind_err (process_image ev cfg fixed_transition image_duration tot_frames target_w target_h i p s)
       (process_images ev cfg fixed_transition image_duration tot_frames target_w target_h (Suc i) ps)"

definition initial_state :: state where
  "initial_state =
     \<lparr>prev_image = None, frame_count = 0, written = [], warnings = [], rand_calls = 0\<rparr>"

definition target_height :: "nat \<Rightarrow> int" where
  "target_height w = py_int (of_nat (w * 9) / 16)"

definition create_slideshow :: "env \<Rightarrow> config \<Rightarrow> string list \<Rightarrow> error + state" where
  "create_slideshow ev cfg image_files =
     (let fixed_transition =
            (if transition_type cfg = ''random'' then None
             else (case TRANSITIONS (transition_type cfg) of Some t \<Rightarrow> Some t
                   | None \<Rightarrow> Some 0));
          num_images = length image_files
      in bind_err (compute_image_duration (video_duration cfg) (transition_duration cfg)
                     num_images) (\<lambda>image_duration.
         case image_files of [] \<Rightarrow> Inl IndexError
         | first_path # rest \<Rightarrow>
           (case imread ev first_path of
              None \<Rightarrow> Inl (ValueError (CouldNotReadImage first_path))
            | Some first_image \<Rightarrow>
               (let w = fr_w first_image;
                    target_w = int w;
                    target_h = target_height w
                in if \<not> writer_opened ev then Inl (ValueError CouldNotOpenOutput)
                   else bind_err
                          (process_images ev cfg fixed_transition image_duration
                             (total_frames (video_duration cfg) (frame_rate cfg))
                             target_w target_h 0 image_files initial_state) (\<lambda>s.
                        bind_err (py_truediv (of_int (frame_count s))
                                    (of_int (frame_rate cfg))) (\<lambda>seconds.
                        Inr s))))))"

subsection \<open>A small concrete build\<close>

text \<open>
  Two tiny images, a nearest-neighbour interpolation standing in for the library's, and a
  world in which the file \<open>''x.png''\<close> cannot be decoded.
\<close>

definition img_a :: frame where
  "img_a = Frame 1 2 [[(1, 2, 3), (4, 5, 6)]]"

definition img_b :: frame where
  "img_b = Frame 2 2 [[(10, 20, 30), (40, 50, 60)], [(70, 80, 90), (100, 110, 120)]]"

definition img_wide :: frame where
  "img_wide = Frame 2 3 [[(1, 1, 1), (2, 2, 2), (3, 3, 3)], [(4, 4, 4), (5, 5, 5), (6, 6, 6)]]"

definition nearest_resize :: "frame \<Rightarrow> nat \<Rightarrow> nat \<Rightarrow> frame" where
  "nearest_resize f w h = tabulate h w (\<lambda>y x. get_px f (y * fr_h f div h) (x * fr_w f div w))"

definition sample_env :: env where
  "sample_env =
     \<lparr>imread = (\<lambda>p. if p = ''a.png'' then Some img_a
                    else if p = ''b.png'' then Some img_b else None),
      cv_resize = nearest_resize, writer_opened = True, randint = (\<lambda>k. 1)\<rparr>"

definition sample_config :: "rat \<Rightarrow> rat \<Rightarrow> int \<Rightarrow> string \<Rightarrow> config" where
  "sample_config td vd fr kind =
     \<lparr>transition_duration = td, video_duration = vd, frame_rate = fr, transition_type = kind\<rparr>"

section \<open>Properties\<close>

subsection \<open>Timing\<close>

lemma py_int_nonneg: "0 \<le> x \<Longrightarrow> py_int x = \<lfloor>x\<rfloor>"
  by (simp add: py_int_def)











subsection \<open>Frames and the fade\<close>

lemma fr_h_tabulate [simp]: "fr_h (tabulate h w g) = h"
  and fr_w_tabulate [simp]: "fr_w (tabulate h w g) = w"
  by (simp_all add: tabulate_def)

lemma wf_tabulate [simp]: "wf_frame (tabulate h w g)"
  by (simp add: wf_frame_def tabulate_def list_all_iff)

lemma get_px_tabulate [simp]: "y < h \<Longrightarrow> x < w \<Longrightarrow> get_px (tabulate h w g) y x = g y x"
  by (simp add: get_px_def tabulate_def)

lemma tabulate_cong:
  assumes "\<And>y x. y < h \<Longrightarrow> x < w \<Longrightarrow> g y x = g' y x"
  shows "tabulate h w g = tabulate h w g'"
  using assms by (simp add: tabulate_def)

lemma tabulate_get_px:
  assumes "wf_frame f"
  shows "tabulate (fr_h f) (fr_w f) (get_px f) = f"
proof (cases f)
  case (Frame h w rows)
  with assms have len: "length rows = h" and row: "\<And>y. y < h \<Longrightarrow> length (rows ! y) = w"
    by (auto simp: wf_frame_def list_all_length)
  have "map (\<lambda>y. map (\<lambda>x. rows ! y ! x) [0..<w]) [0..<h] = rows"
  proof (rule nth_equalityI)
    show "length (map (\<lambda>y. map (\<lambda>x. rows ! y ! x) [0..<w]) [0..<h]) = length rows"
      by (simp add: len)
  next
    fix i assume "i < length (map (\<lambda>y. map (\<lambda>x. rows ! y ! x) [0..<w]) [0..<h])"
    then have i: "i < h" by simp
    then have "map (\<lambda>x. rows ! i ! x) [0..<w] = rows ! i"
      using row [OF i] by (metis map_nth)
    with i show "map (\<lambda>y. map (\<lambda>x. rows ! y ! x) [0..<w]) [0..<h] ! i = rows ! i"
      by simp
  qed
  then have "map (\<lambda>y. map (get_px (Frame h w rows) y) [0..<w]) [0..<h] = rows"
    by (simp add: get_px_def [abs_def])
  with Frame show ?thesis
    by (simp add: tabulate_def)
qed

lemma tabulate_eq_frame:
  assumes "wf_frame f" and "fr_h f = h" and "fr_w f = w"
    and "\<And>y x. y < h \<Longrightarrow> x < w \<Longrightarrow> g y x = get_px f y x"
  shows "tabulate h w g = f"
proof -
  have "tabulate h w g = tabulate h w (get_px f)"
    by (rule tabulate_cong) (rule assms(4))
  also have "\<dots> = f"
    using tabulate_get_px [OF assms(1)] assms(2,3) by simp
  finally show ?thesis .
qed

lemma cv_round_of_int [simp]: "cv_round (of_int k) = k"
  by (simp add: cv_round_def)

lemma saturate_u8_uint [simp]: "saturate_u8 (uint a) = a"
proof -
  have "uint a < 256" using uint_bounded [of a] by simp
  then have "max 0 (min 255 (uint a)) = uint a" by simp
  then show ?thesis by (simp add: saturate_u8_def)
qed

lemma cv_round_unsigned [simp]: "cv_round (unsigned (a :: 8 word)) = uint a"
proof -
  have "cv_round (of_int (uint a)) = uint a" by (rule cv_round_of_int)
  then show ?thesis by simp
qed

lemma blend_sample_left [simp]: "blend_sample a 1 b 0 0 = a"
  and blend_sample_right [simp]: "blend_sample a 0 b 1 0 = b"
  by (simp_all add: blend_sample_def)

lemma blend_pixel_left [simp]: "blend_pixel p 1 q 0 0 = p"
  and blend_pixel_right [simp]: "blend_pixel p 0 q 1 0 = q"
  by (simp_all add: blend_pixel_def split: prod.splits)

text \<open>
  C4. For two well-formed frames of the same shape, the fade at progress 0 is exactly the
  previous frame and at progress 1 exactly the next frame.
\<close>

theorem fade_boundaries:
  assumes "wf_frame A" and "wf_frame B" and "fr_h A = fr_h B" and "fr_w A = fr_w B"
  shows "apply_transition rs A B 0 0 = Inr A \<and> apply_transition rs A B 0 1 = Inr B"
proof -
  have "tabulate (fr_h A) (fr_w A) (\<lambda>y x. blend_pixel (get_px A y x) 1 (get_px B y x) 0 0) = A"
    by (rule tabulate_eq_frame [OF assms(1)]) simp_all
  moreover
  have "tabulate (fr_h A) (fr_w A) (\<lambda>y x. blend_pixel (get_px A y x) 0 (get_px B y x) 1 0) = B"
    by (rule tabulate_eq_frame [OF assms(2)]) (simp_all add: assms)
  ultimately show ?thesis
    using assms(3,4) by (simp add: apply_transition_def fade_def addWeighted_def)
qed

theorem fade_boundaries_witness:
  "wf_frame img_b \<and> wf_frame img_b \<and> fr_h img_b = fr_h img_b \<and> fr_w img_b = fr_w img_b \<and> 
   apply_transition nearest_resize img_b img_b 0 0 = Inr img_b"
  using fade_boundaries [of img_b img_b nearest_resize]
  by (simp add: img_b_def wf_frame_def)


subsection \<open>Slices and wipes\<close>

lemma norm_index_le [simp]: "norm_index k n \<le> n"
  unfolding norm_index_def by (cases "k < 0") auto



lemma np_slice_dims [simp]:
  "fr_h (np_slice f ra rb ca cb) = slice_stop rb (fr_h f) - slice_start ra (fr_h f)"
  "fr_w (np_slice f ra rb ca cb) = slice_stop cb (fr_w f) - slice_start ca (fr_w f)"
  by (simp_all add: np_slice_def Let_def)







subsection \<open>Frames of different shapes\<close>

text \<open>
  C8 as stated fails: \<^verbatim>\<open>apply_transition\<close> checks no precondition. Wipe-left on a
  2x2 previous frame and a next frame of the same height and width 3 returns a frame.
\<close>

theorem mismatched_wipe_left_counterexample:
  "fr_w img_b \<noteq> fr_w img_wide
   \<and> apply_transition nearest_resize img_b img_wide 1 (1 / 2)
       = Inr (Frame 2 2 [[(1, 1, 1), (40, 50, 60)], [(4, 4, 4), (100, 110, 120)]])"
  by (simp add: apply_transition_def np_assign_def np_slice_def slice_start_def slice_stop_def
      norm_index_def py_int_def img_b_def img_wide_def tabulate_def get_px_def upt_rec Let_def)

lemma np_assign_rows_mismatch:
  assumes "fr_h src \<noteq> slice_stop rb (fr_h dst) - slice_start ra (fr_h dst)" and "fr_h src \<noteq> 1"
  shows "np_assign dst ra rb ca cb src = Inl (ValueError CouldNotBroadcast)"
  using assms by (simp add: np_assign_def Let_def)

text \<open>
  C8, amended. With frames of different shapes, the fade (kind 0) and every unrecognised
  kind end in the error of the blend routine and return no frame; wipe-left raises the
  array library's ValueError whenever the heights differ and the next frame's height is
  not 1.
\<close>

theorem mismatched_frames_errors:
  assumes "fr_h A \<noteq> fr_h B \<or> fr_w A \<noteq> fr_w B"
  shows "(k = 0 \<or> k < 0 \<or> 8 < k \<longrightarrow> apply_transition rs A B k p = Inl CvError)
       \<and> (fr_h A \<noteq> fr_h B \<and> fr_h B \<noteq> 1 \<longrightarrow>
            apply_transition rs A B 1 p = Inl (ValueError CouldNotBroadcast))"
proof -
  have f: "fade A B p = Inl CvError"
    using assms by (auto simp: fade_def addWeighted_def)
  have 1: "apply_transition rs A B k p = Inl CvError" if "k = 0 \<or> k < 0 \<or> 8 < k"
    using that f by (auto simp: apply_transition_def Let_def)
  have 2: "apply_transition rs A B 1 p = Inl (ValueError CouldNotBroadcast)"
    if "fr_h A \<noteq> fr_h B \<and> fr_h B \<noteq> 1"
  proof -
    let ?cut = "py_int (of_nat (fr_w A) * p)"
    have "np_assign A None None None (Some ?cut) (np_slice B None None None (Some ?cut))
            = Inl (ValueError CouldNotBroadcast)"
      using that by (intro np_assign_rows_mismatch) (auto simp: slice_start_def slice_stop_def)
    then show ?thesis by (simp add: apply_transition_def Let_def)
  qed
  from 1 2 show ?thesis by blast
qed

theorem mismatched_frames_errors_witness:
  "fr_h img_a = 1 \<and> fr_h img_b = 2
   \<and> apply_transition nearest_resize img_a img_b 0 (1 / 2) = Inl CvError
   \<and> apply_transition nearest_resize img_a img_b 1 (1 / 2) = Inl (ValueError CouldNotBroadcast)"
proof -
  have h: "fr_h img_a \<noteq> fr_h img_b \<or> fr_w img_a \<noteq> fr_w img_b"
    by (simp add: img_a_def img_b_def)
  have g: "fr_h img_a \<noteq> fr_h img_b \<and> fr_h img_b \<noteq> 1"
    by (simp add: img_a_def img_b_def)
  have d: "fr_h img_a = 1 \<and> fr_h img_b = 2"
    by (simp add: img_a_def img_b_def)
  from mismatched_frames_errors [OF h, of 0 nearest_resize "1 / 2"] g d
  show ?thesis by simp
qed

subsection \<open>Images that cannot be decoded\<close>

text \<open>
  C7 as stated fails for the first image: when it cannot be decoded the build stops with
  a ValueError.
\<close>

theorem first_image_fatal_counterexample:
  "imread sample_env ''x.png'' = None
   \<and> create_slideshow sample_env (sample_config (1 / 2) 59 25 ''fade'') [''x.png'', ''a.png'']
       = Inl (ValueError (CouldNotReadImage ''x.png''))"
  by (simp add: create_slideshow_def sample_env_def sample_config_def compute_image_duration_def
      remaining_time_def total_transition_time_def total_transitions_def py_truediv_def
      bind_err_def Let_def)

lemma process_image_index:
  "process_image ev cfg ft d tot tw th (Suc i) p s = process_image ev cfg ft d tot tw th (Suc j) p s"
  by (cases "imread ev p") (simp_all add: process_image_def emit_segments_def)

lemma process_images_index:
  "process_images ev cfg ft d tot tw th (Suc i) ps s
     = process_images ev cfg ft d tot tw th (Suc j) ps s"
proof (induction ps arbitrary: i j s)
  case Nil
  show ?case by simp
next
  case (Cons p ps)
  have "process_images ev cfg ft d tot tw th (Suc (Suc i)) ps
      = process_images ev cfg ft d tot tw th (Suc (Suc j)) ps"
    using Cons.IH by blast
  then show ?case
    by (simp add: process_image_index [of ev cfg ft d tot tw th i p s j])
qed

text \<open>
  C7, amended. An image that cannot be decoded is skipped by the loop with a warning and
  nothing else in the state changes; at any position but the first, the rest of the run is
  the run over the list without that image. When the first image of the list cannot be
  decoded, a feasible build stops with a ValueError naming it.
\<close>

theorem undecodable_image_skipped:
  assumes "imread ev p = None"
  shows "process_image ev cfg ft d tot tw th i p s = Inr (s\<lparr>warnings := warnings s @ [p]\<rparr>)
       \<and> (0 < i \<longrightarrow> process_images ev cfg ft d tot tw th i (p # ps) s
             = process_images ev cfg ft d tot tw th i ps (s\<lparr>warnings := warnings s @ [p]\<rparr>))
       \<and> (\<forall>d'. compute_image_duration (video_duration cfg) (transition_duration cfg)
                  (length (p # ps)) = Inr d'
             \<longrightarrow> create_slideshow ev cfg (p # ps) = Inl (ValueError (CouldNotReadImage p)))"
proof -
  have 1: "process_image ev cfg ft d tot tw th i p s = Inr (s\<lparr>warnings := warnings s @ [p]\<rparr>)"
    using assms by (simp add: process_image_def)
  have 2: "process_images ev cfg ft d tot tw th i (p # ps) s
             = process_images ev cfg ft d tot tw th i ps (s\<lparr>warnings := warnings s @ [p]\<rparr>)"
    if "0 < i"
  proof -
    from that obtain k where i: "i = Suc k" by (cases i) auto
    show ?thesis
      unfolding i using process_images_index [of ev cfg ft d tot tw th "Suc k" ps _ k]
      by (simp add: 1 [unfolded i] bind_err_def)
  qed
  have 3: "create_slideshow ev cfg (p # ps) = Inl (ValueError (CouldNotReadImage p))"
    if "compute_image_duration (video_duration cfg) (transition_duration cfg)
                  (length (p # ps)) = Inr d'" for d'
    using that assms by (simp add: create_slideshow_def bind_err_def Let_def)
  from 1 2 3 show ?thesis by blast
qed

theorem undecodable_image_skipped_witness:
  "imread sample_env ''x.png'' = None
   \<and> (0::nat) < 1
   \<and> process_images sample_env (sample_config 1 5 2 ''fade'') (Some 0) 1 10 2 1 1
        (''x.png'' # [''b.png'']) (initial_state\<lparr>prev_image := Some img_a\<rparr>)
      = process_images sample_env (sample_config 1 5 2 ''fade'') (Some 0) 1 10 2 1 1
        [''b.png''] ((initial_state\<lparr>prev_image := Some img_a\<rparr>)\<lparr>warnings := warnings (initial_state\<lparr>prev_image := Some img_a\<rparr>) @ [''x.png'']\<rparr>)
   \<and> compute_image_duration (video_duration (sample_config 1 5 2 ''fade''))
        (transition_duration (sample_config 1 5 2 ''fade''))
        (length (''x.png'' # [''b.png''])) = Inr 2
   \<and> create_slideshow sample_env (sample_config 1 5 2 ''fade'') (''x.png'' # [''b.png''])
       = Inl (ValueError (CouldNotReadImage ''x.png''))"
proof -
  have h: "imread sample_env ''x.png'' = None" by (simp add: sample_env_def)
  have d: "compute_image_duration (video_duration (sample_config 1 5 2 ''fade''))
        (transition_duration (sample_config 1 5 2 ''fade''))
        (length (''x.png'' # [''b.png''])) = Inr 2"
    by (simp add: sample_config_def compute_image_duration_def
      remaining_time_def total_transition_time_def total_transitions_def py_truediv_def)
  have i: "(0::nat) < 1" by simp
  from undecodable_image_skipped [OF h, of "sample_config 1 5 2 ''fade''" "Some 0" 1 10 2 1 1
         "initial_state\<lparr>prev_image := Some img_a\<rparr>" "[''b.png'']"] h d i
  show ?thesis by blast
qed


subsection \<open>The frame budget\<close>

lemma bind_err_Inr:
  "bind_err m f = Inr y \<longleftrightarrow> (\<exists>x. m = Inr x \<and> f x = Inr y)"
  by (cases m) (simp_all add: bind_err_def)

lemma bind_err_InrE:
  assumes "bind_err m f = Inr y"
  obtains x where "m = Inr x" and "f x = Inr y"
  using assms by (auto simp: bind_err_Inr)

lemma bind_err_simps [simp]:
  "bind_err (Inr x) f = f x" "bind_err (Inl e) f = Inl e"
  by (simp_all add: bind_err_def)

lemma emit_copies_exhausted:
  "tot \<le> frame_count s \<Longrightarrow> emit_copies k img tot s = s"
  by (induction k) simp_all

lemma emit_copies_counted:
  assumes "frame_count s = int (length (written s))" and "frame_count s \<le> max 0 tot"
  shows "frame_count (emit_copies k img tot s) = int (length (written (emit_copies k img tot s)))
       \<and> frame_count (emit_copies k img tot s) \<le> max 0 tot"
  using assms
proof (induction k arbitrary: s)
  case 0
  then show ?case by simp
next
  case (Suc k)
  show ?case
  proof (cases "frame_count s < tot")
    case True
    have "frame_count (write_frame img s) = int (length (written (write_frame img s)))"
      using Suc.prems by (simp add: write_frame_def)
    moreover have "frame_count (write_frame img s) \<le> max 0 tot"
      using True by (simp add: write_frame_def)
    ultimately show ?thesis
      using Suc.IH [of "write_frame img s"] True by simp
  next
    case False
    then show ?thesis using Suc.IH [of s] Suc.prems by simp
  qed
qed

lemma emit_copies_fields [simp]:
  "prev_image (emit_copies k img tot s) = prev_image s"
  "warnings (emit_copies k img tot s) = warnings s"
  "rand_calls (emit_copies k img tot s) = rand_calls s"
  by (induction k arbitrary: s) (simp_all add: write_frame_def)

lemma emit_transition_exhausted:
  "tot \<le> frame_count s \<Longrightarrow> emit_transition rs prev cur kind n tot js s = Inr s"
  by (induction js) simp_all

lemma emit_transition_counted:
  assumes "emit_transition rs prev cur kind n tot js s = Inr s'"
    and "frame_count s = int (length (written s))" and "frame_count s \<le> max 0 tot"
  shows "frame_count s' = int (length (written s')) \<and> frame_count s' \<le> max 0 tot"
  using assms
proof (induction js arbitrary: s)
  case Nil
  then show ?case by simp
next
  case (Cons j js)
  show ?case
  proof (cases "frame_count s < tot")
    case True
    with Cons.prems(1) obtain fr where
      rest: "emit_transition rs prev cur kind n tot js (write_frame fr s) = Inr s'"
      by (auto simp: bind_err_Inr)
    have "frame_count (write_frame fr s) = int (length (written (write_frame fr s)))"
      using Cons.prems(2) by (simp add: write_frame_def)
    moreover have "frame_count (write_frame fr s) \<le> max 0 tot"
      using True by (simp add: write_frame_def)
    ultimately show ?thesis
      using Cons.IH [OF rest] by simp
  next
    case False
    with Cons.prems(1) have "emit_transition rs prev cur kind n tot js s = Inr s'" by simp
    then show ?thesis using Cons.IH Cons.prems(2,3) by blast
  qed
qed

lemma emit_segments_cases:
  assumes "emit_segments ev cfg ft d tot i cur s = Inr s3"
  obtains s1 s2 kind where
    "s3 = emit_copies (nat (frames_per_image d (frame_rate cfg))) cur tot s2"
    and "frame_count s1 = frame_count s" and "written s1 = written s"
    and "prev_image s1 = prev_image s"
    and "(i = 0 \<and> s2 = s) \<or>
         (i \<noteq> 0 \<and> emit_transition (cv_resize ev) (prev_image s) cur kind
              (transition_frames (transition_duration cfg) (frame_rate cfg)) tot
              [0..<nat (transition_frames (transition_duration cfg) (frame_rate cfg))] s1
            = Inr s2)"
proof (cases "i = 0")
  case True
  with assms have "s3 = emit_copies (nat (frames_per_image d (frame_rate cfg))) cur tot s"
    by (simp add: emit_segments_def)
  with True show ?thesis by (intro that [of s s 0]) simp_all
next
  case False
  define s1 where "s1 = (case ft of None \<Rightarrow> s\<lparr>rand_calls := rand_calls s + 1\<rparr> | Some t \<Rightarrow> s)"
  define kind where "kind = (case ft of None \<Rightarrow> randint ev (rand_calls s) | Some t \<Rightarrow> t)"
  have s1: "frame_count s1 = frame_count s" "written s1 = written s"
    "prev_image s1 = prev_image s"
    by (simp_all add: s1_def split: option.splits)
  from assms False have
    "bind_err (emit_transition (cv_resize ev) (prev_image s1) cur kind
              (transition_frames (transition_duration cfg) (frame_rate cfg)) tot
              [0..<nat (transition_frames (transition_duration cfg) (frame_rate cfg))] s1)
        (\<lambda>s2. Inr (emit_copies (nat (frames_per_image d (frame_rate cfg))) cur tot s2))
      = Inr s3"
    by (simp add: emit_segments_def Let_def s1_def kind_def)
  then obtain s2 where
    "emit_transition (cv_resize ev) (prev_image s1) cur kind
              (transition_frames (transition_duration cfg) (frame_rate cfg)) tot
              [0..<nat (transition_frames (transition_duration cfg) (frame_rate cfg))] s1
       = Inr s2"
    and "s3 = emit_copies (nat (frames_per_image d (frame_rate cfg))) cur tot s2"
    by (rule bind_err_InrE) simp
  with False s1 show ?thesis by (intro that [of s2 s1 kind]) simp_all
qed

lemma process_image_decoded:
  assumes "process_image ev cfg ft d tot tw th i p s = Inr s'" and "imread ev p = Some raw"
  obtains cur s3 where
    "resize_image (cv_resize ev) raw tw th = Inr cur"
    and "emit_segments ev cfg ft d tot i cur s = Inr s3"
    and "s' = s3\<lparr>prev_image := Some cur\<rparr>"
    and "tot \<noteq> 0"
proof -
  from assms have
    "bind_err (resize_image (cv_resize ev) raw tw th) (\<lambda>curr_img.
       bind_err (emit_segments ev cfg ft d tot i curr_img s) (\<lambda>s3.
          (let s4 = s3\<lparr>prev_image := Some curr_img\<rparr>
           in bind_err (py_truediv (of_int (frame_count s4)) (of_int tot)) (\<lambda>ratio.
              Inr s4)))) = Inr s'"
    by (simp add: process_image_def)
  then obtain cur where r: "resize_image (cv_resize ev) raw tw th = Inr cur"
    and rest: "bind_err (emit_segments ev cfg ft d tot i cur s) (\<lambda>s3.
          (let s4 = s3\<lparr>prev_image := Some cur\<rparr>
           in bind_err (py_truediv (of_int (frame_count s4)) (of_int tot)) (\<lambda>ratio.
              Inr s4))) = Inr s'"
    by (rule bind_err_InrE)
  from rest obtain s3 where e: "emit_segments ev cfg ft d tot i cur s = Inr s3"
    and fin: "(let s4 = s3\<lparr>prev_image := Some cur\<rparr>
           in bind_err (py_truediv (of_int (frame_count s4)) (of_int tot)) (\<lambda>ratio.
              Inr s4)) = Inr s'"
    by (rule bind_err_InrE)
  from fin have "s' = s3\<lparr>prev_image := Some cur\<rparr>" and "tot \<noteq> 0"
    by (auto simp: Let_def bind_err_Inr py_truediv_def split: if_splits)
  with r e show ?thesis by (intro that [of cur s3])
qed

lemma emit_segments_counted:
  assumes "emit_segments ev cfg ft d tot i cur s = Inr s3"
    and "frame_count s = int (length (written s))" and "frame_count s \<le> max 0 tot"
  shows "frame_count s3 = int (length (written s3)) \<and> frame_count s3 \<le> max 0 tot"
proof -
  from emit_segments_cases [OF assms(1)] obtain s1 s2 kind where
    s3: "s3 = emit_copies (nat (frames_per_image d (frame_rate cfg))) cur tot s2"
    and s1: "frame_count s1 = frame_count s" "written s1 = written s"
    and tr: "(i = 0 \<and> s2 = s) \<or>
         (i \<noteq> 0 \<and> emit_transition (cv_resize ev) (prev_image s) cur kind
              (transition_frames (transition_duration cfg) (frame_rate cfg)) tot
              [0..<nat (transition_frames (transition_duration cfg) (frame_rate cfg))] s1
            = Inr s2)"
    by blast
  have "frame_count s2 = int (length (written s2)) \<and> frame_count s2 \<le> max 0 tot"
    using tr
  proof
    assume "i = 0 \<and> s2 = s"
    with assms(2,3) show ?thesis by simp
  next
    assume "i \<noteq> 0 \<and> emit_transition (cv_resize ev) (prev_image s) cur kind
              (transition_frames (transition_duration cfg) (frame_rate cfg)) tot
              [0..<nat (transition_frames (transition_duration cfg) (frame_rate cfg))] s1
            = Inr s2"
    then have run: "emit_transition (cv_resize ev) (prev_image s) cur kind
              (transition_frames (transition_duration cfg) (frame_rate cfg)) tot
              [0..<nat (transition_frames (transition_duration cfg) (frame_rate cfg))] s1
            = Inr s2" by simp
    have "frame_count s1 = int (length (written s1))" "frame_count s1 \<le> max 0 tot"
      using assms(2,3) s1 by simp_all
    from emit_transition_counted [OF run this] show ?thesis .
  qed
  then show ?thesis unfolding s3 by (intro emit_copies_counted) simp_all
qed

lemma process_image_counted:
  assumes "process_image ev cfg ft d tot tw th i p s = Inr s'"
    and "frame_count s = int (length (written s))" and "frame_count s \<le> max 0 tot"
  shows "frame_count s' = int (length (written s')) \<and> frame_count s' \<le> max 0 tot"
proof (cases "imread ev p")
  case None
  with assms show ?thesis by (auto simp: process_image_def)
next
  case (Some raw)
  from process_image_decoded [OF assms(1) Some] obtain cur s3 where
    e: "emit_segments ev cfg ft d tot i cur s = Inr s3"
    and s': "s' = s3\<lparr>prev_image := Some cur\<rparr>"
    by blast
  from emit_segments_counted [OF e assms(2,3)] show ?thesis by (simp add: s')
qed

lemma process_images_counted:
  assumes "process_images ev cfg ft d tot tw th i ps s = Inr s'"
    and "frame_count s = int (length (written s))" and "frame_count s \<le> max 0 tot"
  shows "frame_count s' = int (length (written s')) \<and> frame_count s' \<le> max 0 tot"
  using assms
proof (induction ps arbitrary: i s)
  case Nil
  then show ?case by simp
next
  case (Cons p ps)
  from Cons.prems(1) obtain s1 where
    step: "process_image ev cfg ft d tot tw th i p s = Inr s1"
    and rest: "process_images ev cfg ft d tot tw th (Suc i) ps s1 = Inr s'"
    by (auto simp: bind_err_Inr)
  from process_image_counted [OF step Cons.prems(2,3)] Cons.IH [OF rest]
  show ?case by blast
qed

lemma emit_segments_exhausted:
  assumes "emit_segments ev cfg ft d tot i cur s = Inr s3" and "tot \<le> frame_count s"
  shows "written s3 = written s \<and> frame_count s3 = frame_count s"
proof -
  from emit_segments_cases [OF assms(1)] obtain s1 s2 kind where
    s3: "s3 = emit_copies (nat (frames_per_image d (frame_rate cfg))) cur tot s2"
    and s1: "frame_count s1 = frame_count s" "written s1 = written s"
    and tr: "(i = 0 \<and> s2 = s) \<or>
         (i \<noteq> 0 \<and> emit_transition (cv_resize ev) (prev_image s) cur kind
              (transition_frames (transition_duration cfg) (frame_rate cfg)) tot
              [0..<nat (transition_frames (transition_duration cfg) (frame_rate cfg))] s1
            = Inr s2)"
    by blast
  have "tot \<le> frame_count s1" using assms(2) s1 by simp
  from emit_transition_exhausted [OF this] tr s1
  have s2: "written s2 = written s \<and> frame_count s2 = frame_count s" by auto
  with assms(2) have "tot \<le> frame_count s2" by simp
  from emit_copies_exhausted [OF this] s2 show ?thesis by (simp add: s3)
qed

lemma process_image_exhausted:
  assumes "process_image ev cfg ft d tot tw th i p s = Inr s'" and "tot \<le> frame_count s"
  shows "written s' = written s \<and> frame_count s' = frame_count s"
proof (cases "imread ev p")
  case None
  with assms show ?thesis by (auto simp: process_image_def)
next
  case (Some raw)
  from process_image_decoded [OF assms(1) Some] obtain cur s3 where
    e: "emit_segments ev cfg ft d tot i cur s = Inr s3"
    and s': "s' = s3\<lparr>prev_image := Some cur\<rparr>"
    by blast
  from emit_segments_exhausted [OF e assms(2)] show ?thesis by (simp add: s')
qed

lemma process_images_exhausted:
  assumes "process_images ev cfg ft d tot tw th i ps s = Inr s'" and "tot \<le> frame_count s"
  shows "written s' = written s \<and> frame_count s' = frame_count s"
  using assms
proof (induction ps arbitrary: i s)
  case Nil
  then show ?case by simp
next
  case (Cons p ps)
  from Cons.prems(1) obtain s1 where
    step: "process_image ev cfg ft d tot tw th i p s = Inr s1"
    and rest: "process_images ev cfg ft d tot tw th (Suc i) ps s1 = Inr s'"
    by (auto simp: bind_err_Inr)
  from process_image_exhausted [OF step Cons.prems(2)]
  have 1: "written s1 = written s \<and> frame_count s1 = frame_count s" .
  with Cons.prems(2) have "tot \<le> frame_count s1" by simp
  from Cons.IH [OF rest this] 1 show ?case by simp
qed

lemma create_slideshow_Inr:
  assumes "create_slideshow ev cfg image_files = Inr s"
  obtains d first_path rest first_image ft where
    "compute_image_duration (video_duration cfg) (transition_duration cfg)
       (length image_files) = Inr d"
    and "image_files = first_path # rest"
    and "imread ev first_path = Some first_image"
    and "writer_opened ev"
    and "process_images ev cfg ft d (total_frames (video_duration cfg) (frame_rate cfg))
           (int (fr_w first_image)) (target_height (fr_w first_image)) 0 image_files
           initial_state = Inr s"
    and "frame_rate cfg \<noteq> 0"
proof -
  define ft where "ft = (if transition_type cfg = ''random'' then None
             else (case TRANSITIONS (transition_type cfg) of Some t \<Rightarrow> Some t
                   | None \<Rightarrow> Some 0))"
  from assms obtain d where
    d: "compute_image_duration (video_duration cfg) (transition_duration cfg)
          (length image_files) = Inr d"
    and body: "(case image_files of [] \<Rightarrow> Inl IndexError
         | first_path # rest \<Rightarrow>
           (case imread ev first_path of
              None \<Rightarrow> Inl (ValueError (CouldNotReadImage first_path))
            | Some first_image \<Rightarrow>
               (if \<not> writer_opened ev then Inl (ValueError CouldNotOpenOutput)
                   else bind_err
                          (process_images ev cfg ft d
                             (total_frames (video_duration cfg) (frame_rate cfg))
                             (int (fr_w first_image)) (target_height (fr_w first_image))
                             0 image_files initial_state) (\<lambda>s.
                        bind_err (py_truediv (of_int (frame_count s))
                                    (of_int (frame_rate cfg))) (\<lambda>seconds.
                        Inr s))))) = Inr s"
    unfolding create_slideshow_def Let_def ft_def [symmetric] by (rule bind_err_InrE)
  from body obtain first_path rest where files: "image_files = first_path # rest"
    by (cases image_files) simp_all
  from body files obtain first_image where first: "imread ev first_path = Some first_image"
    by (cases "imread ev first_path") simp_all
  from body files first have opened: "writer_opened ev"
    by (cases "writer_opened ev") simp_all
  from body files first opened obtain s0 where
    run: "process_images ev cfg ft d (total_frames (video_duration cfg) (frame_rate cfg))
            (int (fr_w first_image)) (target_height (fr_w first_image)) 0 image_files
            initial_state = Inr s0"
    and fin: "bind_err (py_truediv (of_int (frame_count s0)) (of_int (frame_rate cfg)))
                (\<lambda>seconds. Inr s0) = Inr s"
    by (simp add: bind_err_Inr)
  from fin have "s0 = s" and "frame_rate cfg \<noteq> 0"
    by (auto simp: bind_err_Inr py_truediv_def split: if_splits)
  with d files first opened run that show ?thesis by blast
qed

text \<open>
  C1. A build that returns has written as many frames as its counter says, never more
  than the total frame budget (taken as 0 when negative), which is
  \<open>floor (video_duration * frame_rate)\<close> on non-negative inputs. Once the counter has
  reached the budget, a display segment and a transition segment change nothing and
  return normally, and the rest of the loop over the images writes no frame. The bound
  also holds after any run of the loop from the initial state, whatever happens later.
\<close>

theorem frame_budget_never_exceeded:
  assumes "create_slideshow ev cfg image_files = Inr s"
  shows "frame_count s = int (length (written s))
       \<and> int (length (written s)) \<le> max 0 (total_frames (video_duration cfg) (frame_rate cfg))
       \<and> (0 \<le> video_duration cfg * of_int (frame_rate cfg) \<longrightarrow>
            int (length (written s)) \<le> \<lfloor>video_duration cfg * of_int (frame_rate cfg)\<rfloor>)
       \<and> (\<forall>st. tot \<le> frame_count st \<longrightarrow>
            emit_copies k img tot st = st
            \<and> emit_transition rs prev img kind n tot js st = Inr st
            \<and> (\<forall>st'. process_images ev cfg ft d tot tw th i ps st = Inr st'
                  \<longrightarrow> written st' = written st))
       \<and> (\<forall>s1. process_images ev cfg ft d tot tw th i ps initial_state = Inr s1 \<longrightarrow>
            int (length (written s1)) \<le> max 0 tot)"
proof -
  let ?tot = "total_frames (video_duration cfg) (frame_rate cfg)"
  from assms obtain d0 ft0 tw0 th0 where
    run: "process_images ev cfg ft0 d0 ?tot tw0 th0 0 image_files initial_state = Inr s"
    by (rule create_slideshow_Inr)
  have "frame_count s = int (length (written s)) \<and> frame_count s \<le> max 0 ?tot"
    by (rule process_images_counted [OF run]) (simp_all add: initial_state_def)
  then have 1: "frame_count s = int (length (written s))"
    and 2: "int (length (written s)) \<le> max 0 ?tot"
    by simp_all
  have 3: "int (length (written s)) \<le> \<lfloor>video_duration cfg * of_int (frame_rate cfg)\<rfloor>"
    if "0 \<le> video_duration cfg * of_int (frame_rate cfg)"
    using 2 that by (simp add: total_frames_def py_int_nonneg)
  have 4: "emit_copies k img tot st = st
            \<and> emit_transition rs prev img kind n tot js st = Inr st
            \<and> (\<forall>st'. process_images ev cfg ft d tot tw th i ps st = Inr st'
                  \<longrightarrow> written st' = written st)"
    if "tot \<le> frame_count st" for st
  proof (intro conjI allI impI)
    show "emit_copies k img tot st = st" by (rule emit_copies_exhausted [OF that])
    show "emit_transition rs prev img kind n tot js st = Inr st"
      by (rule emit_transition_exhausted [OF that])
    show "written st' = written st"
      if "process_images ev cfg ft d tot tw th i ps st = Inr st'" for st'
      using process_images_exhausted [OF that \<open>tot \<le> frame_count st\<close>] by simp
  qed
  show ?thesis
  proof (intro conjI allI impI)
    show "frame_count s = int (length (written s))" by (rule 1)
    show "int (length (written s)) \<le> max 0 ?tot" by (rule 2)
    show "int (length (written s)) \<le> \<lfloor>video_duration cfg * of_int (frame_rate cfg)\<rfloor>"
      if "0 \<le> video_duration cfg * of_int (frame_rate cfg)" by (rule 3 [OF that])
    show "emit_copies k img tot st = st" if "tot \<le> frame_count st" for st
      using 4 [OF that] by simp
    show "emit_transition rs prev img kind n tot js st = Inr st" if "tot \<le> frame_count st" for st
      using 4 [OF that] by simp
    show "written st' = written st"
      if "tot \<le> frame_count st" "process_images ev cfg ft d tot tw th i ps st = Inr st'"
      for st st'
      using 4 [OF that(1)] that(2) by simp
    show "int (length (written s1)) \<le> max 0 tot"
      if "process_images ev cfg ft d tot tw th i ps initial_state = Inr s1" for s1
      using process_images_counted [OF that] by (simp add: initial_state_def)
  qed
qed


subsection \<open>Evaluating the concrete build\<close>

lemma floor_numeral_div:
  "\<lfloor>numeral a / numeral b :: rat\<rfloor> = numeral a div numeral b"
  "\<lfloor>1 / numeral b :: rat\<rfloor> = 1 div numeral b"
  using floor_divide_of_int_eq [of "numeral a" "numeral b", where ?'a = rat]
    floor_divide_of_int_eq [of 1 "numeral b", where ?'a = rat]
  by simp_all

lemmas model_defs =
  create_slideshow_def process_image_def emit_segments_def compute_image_duration_def
  remaining_time_def total_transition_time_def total_transitions_def py_truediv_def
  frames_per_image_def transition_frames_def total_frames_def py_int_def target_height_def
  resize_image_def cv2_resize_def nearest_resize_def np_slice_def np_assign_def
  slice_start_def slice_stop_def norm_index_def tabulate_def get_px_def
  apply_transition_def TRANSITIONS_def initial_state_def write_frame_def
  sample_env_def sample_config_def img_a_def img_b_def Let_def upt_rec

lemma sample_build:
  "create_slideshow sample_env (sample_config 1 3 1 ''wipe_left'') [''a.png'', ''b.png'']
     = Inr \<lparr>prev_image = Some (Frame 1 2 [[(10, 20, 30), (40, 50, 60)]]), frame_count = 3,
            written = [Frame 1 2 [[(1, 2, 3), (4, 5, 6)]], Frame 1 2 [[(1, 2, 3), (4, 5, 6)]],
                       Frame 1 2 [[(10, 20, 30), (40, 50, 60)]]],
            warnings = [], rand_calls = 0\<rparr>"
  by (simp add: model_defs floor_numeral_div)


theorem frame_budget_never_exceeded_witness:
  "(\<exists>s. create_slideshow sample_env (sample_config 1 3 1 ''wipe_left'') [''a.png'', ''b.png'']
          = Inr s
        \<and> length (written s) = 3
        \<and> int (length (written s)) \<le> \<lfloor>(3::rat) * of_int 1\<rfloor>)
   \<and> (0::rat) \<le> 3 * of_int 1
   \<and> (0::int) \<le> frame_count initial_state
   \<and> emit_copies 2 img_a 0 initial_state = initial_state
   \<and> (3::int) \<le> frame_count (initial_state\<lparr>frame_count := 3, written := [img_a, img_a, img_a]\<rparr>)
   \<and> (\<exists>st'. process_images sample_env (sample_config 1 3 1 ''wipe_left'') (Some 1) 1 3 2 1 0
                [''a.png'', ''b.png'']
                (initial_state\<lparr>frame_count := 3, written := [img_a, img_a, img_a]\<rparr>) = Inr st'
            \<and> written st' = [img_a, img_a, img_a])"
proof -
  have ex: "0 \<le> frame_count initial_state" by (simp add: initial_state_def)
  from frame_budget_never_exceeded [OF sample_build, of 0 2 img_a]
  have "emit_copies 2 img_a 0 initial_state = initial_state"
    using ex by blast
  moreover
  from frame_budget_never_exceeded [OF sample_build]
  have "int (length (written \<lparr>prev_image = Some (Frame 1 2 [[(10, 20, 30), (40, 50, 60)]]),
            frame_count = 3,
            written = [Frame 1 2 [[(1, 2, 3), (4, 5, 6)]], Frame 1 2 [[(1, 2, 3), (4, 5, 6)]],
                       Frame 1 2 [[(10, 20, 30), (40, 50, 60)]]],
            warnings = [], rand_calls = 0\<rparr>)) \<le> \<lfloor>(3::rat) * of_int 1\<rfloor>"
    by (simp add: sample_config_def)
  moreover
  have run: "process_images sample_env (sample_config 1 3 1 ''wipe_left'') (Some 1) 1 3 2 1 0
                [''a.png'', ''b.png'']
                (initial_state\<lparr>frame_count := 3, written := [img_a, img_a, img_a]\<rparr>)
      = Inr (initial_state\<lparr>frame_count := 3, written := [img_a, img_a, img_a],
               prev_image := Some (Frame 1 2 [[(10, 20, 30), (40, 50, 60)]])\<rparr>)"
    by (simp add: model_defs floor_numeral_div)
  have "written (initial_state\<lparr>frame_count := 3, written := [img_a, img_a, img_a],
               prev_image := Some (Frame 1 2 [[(10, 20, 30), (40, 50, 60)]])\<rparr>)
          = written (initial_state\<lparr>frame_count := 3, written := [img_a, img_a, img_a]\<rparr>)"
    using frame_budget_never_exceeded [OF sample_build, where tot = 3 and ft = "Some 1"
        and d = 1 and tw = 2 and th = 1 and i = 0 and ps = "[''a.png'', ''b.png'']"] run
    by simp
  ultimately show ?thesis
    using sample_build ex run by simp
qed


subsection \<open>\<^verbatim>\<open>resize_image\<close> returns the target shape\<close>

lemma np_assign_shape:
  assumes "np_assign dst ra rb ca cb src = Inr fr"
  shows "wf_frame fr \<and> fr_h fr = fr_h dst \<and> fr_w fr = fr_w dst"
  using assms by (auto simp: np_assign_def Let_def split: if_splits)

lemma wf_np_slice [simp]: "wf_frame (np_slice f ra rb ca cb)"
  by (simp add: np_slice_def Let_def)

lemma crop_width:
  assumes "0 < W" and "W \<le> nw"
  shows "norm_index ((nw - W) div 2 + W) (nat nw) - norm_index ((nw - W) div 2) (nat nw) = nat W"
proof -
  define a where "a = (nw - W) div 2"
  have a: "0 \<le> a" "a + W \<le> nw" using assms by (simp_all add: a_def)
  have 1: "norm_index (a + W) (nat nw) = nat (a + W)"
    using a assms by (simp add: norm_index_def)
  have 2: "norm_index a (nat nw) = nat a"
    using a assms by (simp add: norm_index_def)
  have "nat (a + W) - nat a = nat W" using a assms by linarith
  then show ?thesis by (simp only: a_def [symmetric] 1 2)
qed

lemma floor_gt_int:
  assumes "of_int W < (x :: rat)"
  shows "W \<le> py_int x" and "0 < W \<Longrightarrow> 0 < py_int x"
proof -
  have fl: "W \<le> \<lfloor>x\<rfloor>" using assms by (simp add: le_floor_iff)
  have "\<lfloor>x\<rfloor> \<le> py_int x" by (simp add: py_int_def floor_le_ceiling)
  with fl show "W \<le> py_int x" by simp
  then show "0 < py_int x" if "0 < W" using that by simp
qed

lemma resize_image_total:
  assumes "0 < fr_h img" and "0 < fr_w img" and "0 < W" and "0 < H"
  shows "\<exists>fr. resize_image rs img W H = Inr fr
            \<and> (resize_ok rs \<longrightarrow> wf_frame fr \<and> fr_h fr = nat H \<and> fr_w fr = nat W)"
proof -
  define cr :: rat where "cr = of_nat (fr_w img) / of_nat (fr_h img)"
  define tr :: rat where "tr = of_int W / of_int H"
  have cr0: "0 < cr" using assms by (simp add: cr_def)
  have d1: "py_truediv (of_nat (fr_w img)) (of_nat (fr_h img)) = Inr cr"
    using assms by (simp add: py_truediv_def cr_def)
  have d2: "py_truediv (of_int W) (of_int H) = Inr tr"
    using assms by (simp add: py_truediv_def tr_def)
  have d3: "py_truediv (of_int W) cr = Inr (of_int W / cr)"
    using cr0 by (simp add: py_truediv_def)
  have rs: "cv2_resize rs img a b = Inr (rs img (nat a) (nat b))" if "0 < a" "0 < b" for a b
    using that assms by (simp add: cv2_resize_def)
  consider (direct) "\<bar>cr - tr\<bar> < 1 / 100" | (wider) "\<not> \<bar>cr - tr\<bar> < 1 / 100" "cr > tr"
    | (taller) "\<not> \<bar>cr - tr\<bar> < 1 / 100" "cr < tr"
    by linarith
  then show ?thesis
  proof cases
    case direct
    then have "resize_image rs img W H = Inr (rs img (nat W) (nat H))"
      using assms by (simp add: resize_image_def d1 d2 rs)
    then show ?thesis by (simp add: resize_ok_def)
  next
    case wider
    define nw where "nw = py_int (of_int H * cr)"
    from wider(2) assms(4) have "of_int W < of_int H * cr"
      by (simp add: tr_def pos_divide_less_eq mult.commute)
    from floor_gt_int [OF this] assms(3) have nw: "W \<le> nw" "0 < nw" by (simp_all add: nw_def)
    have "resize_image rs img W H
            = Inr (np_slice (rs img (nat nw) (nat H)) None None
                     (Some ((nw - W) div 2)) (Some ((nw - W) div 2 + W)))"
      using wider assms nw by (simp add: resize_image_def d1 d2 rs Let_def nw_def [symmetric])
    moreover have "fr_w (np_slice (rs img (nat nw) (nat H)) None None
                     (Some ((nw - W) div 2)) (Some ((nw - W) div 2 + W))) = nat W"
      "fr_h (np_slice (rs img (nat nw) (nat H)) None None
                     (Some ((nw - W) div 2)) (Some ((nw - W) div 2 + W))) = nat H"
      if "resize_ok rs"
      using that crop_width [OF assms(3) nw(1)]
      by (simp_all add: np_slice_def Let_def slice_start_def slice_stop_def resize_ok_def)
    ultimately show ?thesis by simp
  next
    case taller
    define nh where "nh = py_int (of_int W / cr)"
    from taller(2) assms(4) cr0 have "of_int H < of_int W / cr"
      by (simp add: tr_def pos_less_divide_eq mult.commute)
    from floor_gt_int [OF this] assms(4) have nh: "H \<le> nh" "0 < nh" by (simp_all add: nh_def)
    have "resize_image rs img W H
            = Inr (np_slice (rs img (nat W) (nat nh))
                     (Some ((nh - H) div 2)) (Some ((nh - H) div 2 + H)) None None)"
      using taller assms nh by (simp add: resize_image_def d1 d2 d3 rs Let_def nh_def [symmetric])
    moreover have "fr_h (np_slice (rs img (nat W) (nat nh))
                     (Some ((nh - H) div 2)) (Some ((nh - H) div 2 + H)) None None) = nat H"
      "fr_w (np_slice (rs img (nat W) (nat nh))
                     (Some ((nh - H) div 2)) (Some ((nh - H) div 2 + H)) None None) = nat W"
      if "resize_ok rs"
      using that crop_width [OF assms(4) nh(1)]
      by (simp_all add: np_slice_def Let_def slice_start_def slice_stop_def resize_ok_def)
    ultimately show ?thesis by simp
  qed
qed

lemma resize_image_Inr_nonempty:
  assumes "resize_image rs img W H = Inr fr"
  shows "0 < fr_h img \<and> 0 < fr_w img \<and> H \<noteq> 0"
proof -
  have h: "fr_h img \<noteq> 0"
  proof
    assume "fr_h img = 0"
    then have "resize_image rs img W H = Inl ZeroDivisionError"
      by (simp add: resize_image_def py_truediv_def)
    with assms show False by simp
  qed
  have H: "H \<noteq> 0"
  proof
    assume "H = 0"
    then have "resize_image rs img W H = Inl ZeroDivisionError"
      using h by (simp add: resize_image_def py_truediv_def)
    with assms show False by simp
  qed
  have "fr_w img \<noteq> 0"
  proof
    assume w: "fr_w img = 0"
    then have cv: "cv2_resize rs img a b = Inl CvError" for a b by (simp add: cv2_resize_def)
    have "resize_image rs img W H = Inl CvError \<or> resize_image rs img W H = Inl ZeroDivisionError"
      using h H w by (simp add: resize_image_def py_truediv_def Let_def cv)
    with assms show False by auto
  qed
  with h H show ?thesis by simp
qed


subsection \<open>Every transition keeps the shape\<close>

lemma fade_shape:
  assumes "fade A B p = Inr fr"
  shows "wf_frame fr \<and> fr_h fr = fr_h A \<and> fr_w fr = fr_w A"
  using assms by (auto simp: fade_def addWeighted_def split: if_splits)

lemma zoom_paste_shape:
  assumes "zoom_paste rs h w z fg bg = Inr fr"
  shows "wf_frame fr \<and> fr_h fr = fr_h bg \<and> fr_w fr = fr_w bg"
proof -
  from assms obtain scaled ra rb ca cb src where "np_assign bg ra rb ca cb src = Inr fr"
    unfolding zoom_paste_def Let_def by (rule bind_err_InrE)
  then show ?thesis by (rule np_assign_shape)
qed

lemma zoom_fallback_shape:
  assumes "(let r = zoom_paste rs h w z fg bg in if is_value_error r then fade A B p else r) = Inr fr"
    and "fr_h bg = fr_h A" and "fr_w bg = fr_w A"
  shows "wf_frame fr \<and> fr_h fr = fr_h A \<and> fr_w fr = fr_w A"
proof (cases "is_value_error (zoom_paste rs h w z fg bg)")
  case True
  with assms(1) have "fade A B p = Inr fr" by (simp add: Let_def)
  then show ?thesis by (rule fade_shape)
next
  case False
  with assms(1) have "zoom_paste rs h w z fg bg = Inr fr" by (simp add: Let_def)
  from zoom_paste_shape [OF this] assms(2,3) show ?thesis by simp
qed

lemma slide_shape:
  assumes "bind_err (if c1 then np_assign (zeros_like A) ra rb ca cb src else Inr (zeros_like A))
             (\<lambda>result. if c2 then np_assign result ra' rb' ca' cb' src' else Inr result) = Inr fr"
  shows "wf_frame fr \<and> fr_h fr = fr_h A \<and> fr_w fr = fr_w A"
proof -
  from assms obtain r1 where
    1: "(if c1 then np_assign (zeros_like A) ra rb ca cb src else Inr (zeros_like A)) = Inr r1"
    and 2: "(if c2 then np_assign r1 ra' rb' ca' cb' src' else Inr r1) = Inr fr"
    by (rule bind_err_InrE)
  have z: "wf_frame (zeros_like A) \<and> fr_h (zeros_like A) = fr_h A \<and> fr_w (zeros_like A) = fr_w A"
    by (simp add: zeros_like_def)
  have r1: "wf_frame r1 \<and> fr_h r1 = fr_h A \<and> fr_w r1 = fr_w A"
  proof (cases c1)
    case True
    with 1 have "np_assign (zeros_like A) ra rb ca cb src = Inr r1" by simp
    from np_assign_shape [OF this] z show ?thesis by simp
  next
    case False
    with 1 z show ?thesis by simp
  qed
  show ?thesis
  proof (cases c2)
    case True
    with 2 have "np_assign r1 ra' rb' ca' cb' src' = Inr fr" by simp
    from np_assign_shape [OF this] r1 show ?thesis by simp
  next
    case False
    with 2 r1 show ?thesis by simp
  qed
qed

lemma apply_transition_shape:
  assumes "apply_transition rs prev cur kind p = Inr fr"
    and "fr_h prev = fr_h cur" and "fr_w prev = fr_w cur"
  shows "wf_frame fr \<and> fr_h fr = fr_h cur \<and> fr_w fr = fr_w cur"
proof -
  consider "kind = 0" | "kind = 1" | "kind = 2" | "kind = 3" | "kind = 4" | "kind = 5"
    | "kind = 6" | "kind = 7" | "kind = 8" | "kind < 0 \<or> 8 < kind"
    by linarith
  then have "wf_frame fr \<and> fr_h fr = fr_h prev \<and> fr_w fr = fr_w prev"
  proof cases
    case 1
    with assms(1) have "fade prev cur p = Inr fr" by (simp add: apply_transition_def)
    then show ?thesis by (rule fade_shape)
  next
    case 2
    with assms(1) obtain ra rb ca cb src where "np_assign prev ra rb ca cb src = Inr fr"
      by (auto simp: apply_transition_def Let_def)
    then show ?thesis by (rule np_assign_shape)
  next
    case 3
    with assms(1) obtain ra rb ca cb src where "np_assign prev ra rb ca cb src = Inr fr"
      by (auto simp: apply_transition_def Let_def)
    then show ?thesis by (rule np_assign_shape)
  next
    case 4
    with assms(1) obtain ra rb ca cb src where "np_assign prev ra rb ca cb src = Inr fr"
      by (auto simp: apply_transition_def Let_def)
    then show ?thesis by (rule np_assign_shape)
  next
    case 5
    with assms(1) obtain ra rb ca cb src where "np_assign prev ra rb ca cb src = Inr fr"
      by (auto simp: apply_transition_def Let_def)
    then show ?thesis by (rule np_assign_shape)
  next
    case 6
    with assms(1) have
      "(let r = zoom_paste rs (fr_h prev) (fr_w prev) p cur prev
        in if is_value_error r then fade prev cur p else r) = Inr fr"
      by (simp add: apply_transition_def Let_def)
    then show ?thesis by (rule zoom_fallback_shape) simp_all
  next
    case 7
    with assms(1) have
      "(let r = zoom_paste rs (fr_h prev) (fr_w prev) (1 - p) prev cur
        in if is_value_error r then fade prev cur p else r) = Inr fr"
      by (simp add: apply_transition_def Let_def)
    then show ?thesis by (rule zoom_fallback_shape) (simp_all add: assms)
  next
    case 8
    with assms(1) show ?thesis
      unfolding apply_transition_def Let_def by (intro slide_shape [of _ prev]) simp
  next
    case 9
    with assms(1) show ?thesis
      unfolding apply_transition_def Let_def by (intro slide_shape [of _ prev]) simp
  next
    case 10
    with assms(1) have "fade prev cur p = Inr fr" by (auto simp: apply_transition_def)
    then show ?thesis by (rule fade_shape)
  qed
  with assms(2,3) show ?thesis by simp
qed


subsection \<open>The canvas resolution\<close>

lemma emit_copies_frames:
  "set (written (emit_copies k img tot s)) \<subseteq> insert img (set (written s))"
proof (induction k arbitrary: s)
  case 0
  show ?case by auto
next
  case (Suc k)
  have "set (written (if frame_count s < tot then write_frame img s else s))
          \<subseteq> insert img (set (written s))"
    by (auto simp: write_frame_def)
  with Suc [of "if frame_count s < tot then write_frame img s else s"]
  show ?case by auto
qed

lemma emit_transition_frames:
  assumes "emit_transition rs prev cur kind n tot js s = Inr s'"
    and "\<And>pf. prev = Some pf \<Longrightarrow> fr_h pf = fr_h cur \<and> fr_w pf = fr_w cur"
    and "fr \<in> set (written s')"
  shows "fr \<in> set (written s) \<or> (wf_frame fr \<and> fr_h fr = fr_h cur \<and> fr_w fr = fr_w cur)"
  using assms(1,3)
proof (induction js arbitrary: s)
  case Nil
  then show ?case by simp
next
  case (Cons j js)
  show ?case
  proof (cases "frame_count s < tot")
    case False
    with Cons.prems(1) have "emit_transition rs prev cur kind n tot js s = Inr s'" by simp
    from Cons.IH [OF this Cons.prems(2)] show ?thesis .
  next
    case True
    with Cons.prems(1) have
      "bind_err (py_truediv (of_nat j) (of_int n)) (\<lambda>progress.
        bind_err (case prev of None \<Rightarrow> Inl NoneFrameError
                  | Some prev_frame \<Rightarrow> apply_transition rs prev_frame cur kind progress) (\<lambda>fr.
        emit_transition rs prev cur kind n tot js (write_frame fr s))) = Inr s'"
      by simp
    then obtain progress where
      "bind_err (case prev of None \<Rightarrow> Inl NoneFrameError
                  | Some prev_frame \<Rightarrow> apply_transition rs prev_frame cur kind progress) (\<lambda>fr.
        emit_transition rs prev cur kind n tot js (write_frame fr s)) = Inr s'"
      by (rule bind_err_InrE)
    then obtain fr0 where
      made: "(case prev of None \<Rightarrow> Inl NoneFrameError
                  | Some prev_frame \<Rightarrow> apply_transition rs prev_frame cur kind progress) = Inr fr0"
      and rest: "emit_transition rs prev cur kind n tot js (write_frame fr0 s) = Inr s'"
      by (rule bind_err_InrE)
    from made obtain pf where pf: "prev = Some pf"
      and ap: "apply_transition rs pf cur kind progress = Inr fr0"
      by (cases prev) simp_all
    from assms(2) [OF pf] have "fr_h pf = fr_h cur" "fr_w pf = fr_w cur" by simp_all
    from apply_transition_shape [OF ap this]
    have fr0: "wf_frame fr0 \<and> fr_h fr0 = fr_h cur \<and> fr_w fr0 = fr_w cur" .
    from Cons.IH [OF rest Cons.prems(2)] fr0 show ?thesis
      by (auto simp: write_frame_def)
  qed
qed

lemma emit_segments_frames:
  assumes "emit_segments ev cfg ft d tot i cur s = Inr s3"
    and "\<And>pf. prev_image s = Some pf \<Longrightarrow> fr_h pf = fr_h cur \<and> fr_w pf = fr_w cur"
    and "wf_frame cur"
    and "fr \<in> set (written s3)"
  shows "fr \<in> set (written s) \<or> (wf_frame fr \<and> fr_h fr = fr_h cur \<and> fr_w fr = fr_w cur)"
proof -
  from emit_segments_cases [OF assms(1)] obtain s1 s2 kind where
    s3: "s3 = emit_copies (nat (frames_per_image d (frame_rate cfg))) cur tot s2"
    and s1: "written s1 = written s"
    and tr: "(i = 0 \<and> s2 = s) \<or>
         (i \<noteq> 0 \<and> emit_transition (cv_resize ev) (prev_image s) cur kind
              (transition_frames (transition_duration cfg) (frame_rate cfg)) tot
              [0..<nat (transition_frames (transition_duration cfg) (frame_rate cfg))] s1
            = Inr s2)"
    by blast
  from assms(4) s3 emit_copies_frames have "fr = cur \<or> fr \<in> set (written s2)" by blast
  then show ?thesis
  proof
    assume "fr = cur"
    with assms(3) show ?thesis by simp
  next
    assume in2: "fr \<in> set (written s2)"
    from tr show ?thesis
    proof
      assume "i = 0 \<and> s2 = s"
      with in2 show ?thesis by simp
    next
      assume "i \<noteq> 0 \<and> emit_transition (cv_resize ev) (prev_image s) cur kind
              (transition_frames (transition_duration cfg) (frame_rate cfg)) tot
              [0..<nat (transition_frames (transition_duration cfg) (frame_rate cfg))] s1
            = Inr s2"
      then have run: "emit_transition (cv_resize ev) (prev_image s) cur kind
              (transition_frames (transition_duration cfg) (frame_rate cfg)) tot
              [0..<nat (transition_frames (transition_duration cfg) (frame_rate cfg))] s1
            = Inr s2" by simp
      from emit_transition_frames [OF run assms(2) in2] s1 show ?thesis by simp
    qed
  qed
qed

lemma process_image_frames:
  assumes "process_image ev cfg ft d tot tw th i p s = Inr s'"
    and "resize_ok (cv_resize ev)" and "0 < tw" and "0 < th"
    and "\<And>fr. fr \<in> set (written s) \<Longrightarrow> wf_frame fr \<and> fr_h fr = nat th \<and> fr_w fr = nat tw"
    and "\<And>pf. prev_image s = Some pf \<Longrightarrow> wf_frame pf \<and> fr_h pf = nat th \<and> fr_w pf = nat tw"
  shows "(\<forall>fr \<in> set (written s'). wf_frame fr \<and> fr_h fr = nat th \<and> fr_w fr = nat tw)
       \<and> (\<forall>pf. prev_image s' = Some pf \<longrightarrow> wf_frame pf \<and> fr_h pf = nat th \<and> fr_w pf = nat tw)"
proof (cases "imread ev p")
  case None
  with assms(1) have "s' = s\<lparr>warnings := warnings s @ [p]\<rparr>" by (simp add: process_image_def)
  with assms(5,6) show ?thesis by simp
next
  case (Some raw)
  from process_image_decoded [OF assms(1) Some] obtain cur s3 where
    r: "resize_image (cv_resize ev) raw tw th = Inr cur"
    and e: "emit_segments ev cfg ft d tot i cur s = Inr s3"
    and s': "s' = s3\<lparr>prev_image := Some cur\<rparr>"
    by blast
  from resize_image_Inr_nonempty [OF r] have "0 < fr_h raw" "0 < fr_w raw" by simp_all
  from resize_image_total [OF this assms(3,4), of "cv_resize ev"] r assms(2)
  have cur: "wf_frame cur \<and> fr_h cur = nat th \<and> fr_w cur = nat tw" by simp
  have "wf_frame fr \<and> fr_h fr = nat th \<and> fr_w fr = nat tw" if "fr \<in> set (written s3)" for fr
  proof -
    have "fr \<in> set (written s) \<or> (wf_frame fr \<and> fr_h fr = fr_h cur \<and> fr_w fr = fr_w cur)"
      using e _ _ that
    proof (rule emit_segments_frames)
      show "fr_h pf = fr_h cur \<and> fr_w pf = fr_w cur" if "prev_image s = Some pf" for pf
        using assms(6) [OF that] cur by simp
      show "wf_frame cur" using cur by simp
    qed
    with assms(5) cur show ?thesis by auto
  qed
  with cur show ?thesis by (simp add: s')
qed

lemma process_images_frames:
  assumes "process_images ev cfg ft d tot tw th i ps s = Inr s'"
    and "resize_ok (cv_resize ev)" and "0 < tw" and "0 < th"
    and "\<forall>fr \<in> set (written s). wf_frame fr \<and> fr_h fr = nat th \<and> fr_w fr = nat tw"
    and "\<forall>pf. prev_image s = Some pf \<longrightarrow> wf_frame pf \<and> fr_h pf = nat th \<and> fr_w pf = nat tw"
  shows "\<forall>fr \<in> set (written s'). wf_frame fr \<and> fr_h fr = nat th \<and> fr_w fr = nat tw"
  using assms(1,5,6)
proof (induction ps arbitrary: i s)
  case Nil
  then show ?case by simp
next
  case (Cons p ps)
  from Cons.prems(1) obtain s1 where
    step: "process_image ev cfg ft d tot tw th i p s = Inr s1"
    and rest: "process_images ev cfg ft d tot tw th (Suc i) ps s1 = Inr s'"
    by (auto simp: bind_err_Inr)
  have "(\<forall>fr \<in> set (written s1). wf_frame fr \<and> fr_h fr = nat th \<and> fr_w fr = nat tw)
       \<and> (\<forall>pf. prev_image s1 = Some pf \<longrightarrow> wf_frame pf \<and> fr_h pf = nat th \<and> fr_w pf = nat tw)"
    using step assms(2-4) Cons.prems(2,3) by (intro process_image_frames) blast+
  with Cons.IH [OF rest] show ?case by blast
qed

lemma target_height_nonneg: "0 \<le> target_height w"
  by (simp add: target_height_def py_int_def)

lemma target_height_pos: "2 \<le> w \<Longrightarrow> 0 < target_height w"
proof -
  assume "2 \<le> w"
  then have "(1::rat) \<le> of_nat (w * 9) / 16" by simp
  then have "1 \<le> \<lfloor>(of_nat (w * 9) / 16 :: rat)\<rfloor>" by (simp only: le_floor_iff of_int_1)
  then show ?thesis by (simp add: target_height_def py_int_def)
qed

text \<open>
  C9. Provided the library's resize returns a frame of the size it is asked for: in a build
  that returns, the first image of the list was decoded, and every frame written (display
  copy or transition frame) is well-formed with the width of that first image and the
  height \<open>int (w * 9 / 16)\<close> computed from it before the loop; and \<^verbatim>\<open>resize_image\<close>,
  on a non-empty image and positive target dimensions, returns a well-formed frame of
  exactly the target dimensions in each of its three branches.
\<close>

theorem canvas_resolution_fixed:
  assumes "resize_ok (cv_resize ev)"
  shows "(\<forall>s. create_slideshow ev cfg image_files = Inr s \<longrightarrow>
            (\<exists>first_image. imread ev (hd image_files) = Some first_image
               \<and> (\<forall>fr \<in> set (written s). wf_frame fr \<and> fr_w fr = fr_w first_image
                      \<and> int (fr_h fr) = target_height (fr_w first_image))))
       \<and> (0 < fr_h img \<and> 0 < fr_w img \<and> 0 < W \<and> 0 < H \<longrightarrow>
            (\<exists>fr. resize_image (cv_resize ev) img W H = Inr fr
                \<and> wf_frame fr \<and> fr_h fr = nat H \<and> fr_w fr = nat W))"
proof (intro conjI allI impI)
  fix s
  assume "create_slideshow ev cfg image_files = Inr s"
  then obtain d p0 rest img0 ft where
    files: "image_files = p0 # rest" and first: "imread ev p0 = Some img0"
    and run: "process_images ev cfg ft d (total_frames (video_duration cfg) (frame_rate cfg))
           (int (fr_w img0)) (target_height (fr_w img0)) 0 image_files initial_state = Inr s"
    by (rule create_slideshow_Inr)
  let ?tot = "total_frames (video_duration cfg) (frame_rate cfg)"
  let ?tw = "int (fr_w img0)" and ?th = "target_height (fr_w img0)"
  from run files obtain s1 where
    "process_image ev cfg ft d ?tot ?tw ?th 0 p0 initial_state = Inr s1"
    by (auto simp: bind_err_Inr)
  from process_image_decoded [OF this first] obtain cur where
    "resize_image (cv_resize ev) img0 ?tw ?th = Inr cur" by blast
  from resize_image_Inr_nonempty [OF this] target_height_nonneg [of "fr_w img0"]
  have pos: "0 < ?tw" "0 < ?th" by simp_all
  have "\<forall>fr \<in> set (written s). wf_frame fr \<and> fr_h fr = nat ?th \<and> fr_w fr = nat ?tw"
    using run assms pos by (rule process_images_frames) (simp_all add: initial_state_def)
  with pos have "\<forall>fr \<in> set (written s). wf_frame fr \<and> fr_w fr = fr_w img0
                      \<and> int (fr_h fr) = target_height (fr_w img0)"
    by simp
  with files first
  show "\<exists>first_image. imread ev (hd image_files) = Some first_image
               \<and> (\<forall>fr \<in> set (written s). wf_frame fr \<and> fr_w fr = fr_w first_image
                      \<and> int (fr_h fr) = target_height (fr_w first_image))"
    by simp
next
  assume "0 < fr_h img \<and> 0 < fr_w img \<and> 0 < W \<and> 0 < H"
  then have "0 < fr_h img" "0 < fr_w img" "0 < W" "0 < H" by simp_all
  from resize_image_total [OF this, of "cv_resize ev"] assms
  show "\<exists>fr. resize_image (cv_resize ev) img W H = Inr fr
                \<and> wf_frame fr \<and> fr_h fr = nat H \<and> fr_w fr = nat W"
    by blast
qed


theorem canvas_resolution_fixed_witness:
  "resize_ok (cv_resize sample_env)
   \<and> (\<exists>s. create_slideshow sample_env (sample_config 1 3 1 ''wipe_left'') [''a.png'', ''b.png'']
            = Inr s
          \<and> map (\<lambda>fr. (fr_h fr, fr_w fr)) (written s) = [(1, 2), (1, 2), (1, 2)])
   \<and> imread sample_env (hd [''a.png'', ''b.png'']) = Some img_a
   \<and> fr_w img_a = 2 \<and> target_height (fr_w img_a) = 1
   \<and> 0 < fr_h img_b \<and> 0 < fr_w img_b \<and> (0::int) < 2 \<and> (0::int) < 1
   \<and> (\<exists>fr. resize_image (cv_resize sample_env) img_b 2 1 = Inr fr
          \<and> wf_frame fr \<and> fr_h fr = nat 1 \<and> fr_w fr = nat 2)"
proof -
  have ok: "resize_ok (cv_resize sample_env)"
    by (simp add: resize_ok_def sample_env_def nearest_resize_def)
  have pos: "0 < fr_h img_b \<and> 0 < fr_w img_b \<and> (0::int) < 2 \<and> (0::int) < 1"
    by (simp add: img_b_def)
  have a: "imread sample_env (hd [''a.png'', ''b.png'']) = Some img_a"
    "fr_w img_a = 2" "target_height (fr_w img_a) = 1"
    by (simp_all add: sample_env_def img_a_def target_height_def py_int_def floor_numeral_div)
  from canvas_resolution_fixed [OF ok, of "sample_config 1 3 1 ''wipe_left''"
      "[''a.png'', ''b.png'']" img_b 2 1] pos
  have "\<exists>fr. resize_image (cv_resize sample_env) img_b 2 1 = Inr fr
          \<and> wf_frame fr \<and> fr_h fr = nat 1 \<and> fr_w fr = nat 2"
    by blast
  with ok pos a sample_build show ?thesis by simp
qed

subsection \<open>Transitions shorter than one frame\<close>

lemma emit_segments_no_transition:
  assumes "transition_frames (transition_duration cfg) (frame_rate cfg) = 0" and "i \<noteq> 0"
  shows "\<exists>st1. emit_segments ev cfg ft d tot i cur st
                = Inr (emit_copies (nat (frames_per_image d (frame_rate cfg))) cur tot st1)
             \<and> written st1 = written st \<and> frame_count st1 = frame_count st"
proof (cases ft)
  case None
  with assms have "emit_segments ev cfg ft d tot i cur st
      = Inr (emit_copies (nat (frames_per_image d (frame_rate cfg))) cur tot
               (st\<lparr>rand_calls := rand_calls st + 1\<rparr>))"
    by (simp add: emit_segments_def)
  then show ?thesis by (intro exI [of _ "st\<lparr>rand_calls := rand_calls st + 1\<rparr>"]) simp
next
  case (Some t)
  with assms have "emit_segments ev cfg ft d tot i cur st
      = Inr (emit_copies (nat (frames_per_image d (frame_rate cfg))) cur tot st)"
    by (simp add: emit_segments_def)
  then show ?thesis by (intro exI [of _ st]) simp
qed

lemma process_image_complete:
  assumes "transition_frames (transition_duration cfg) (frame_rate cfg) = 0"
    and "tot \<noteq> 0" and "0 < tw" and "0 < th"
    and "\<forall>q img. imread ev q = Some img \<longrightarrow> 0 < fr_h img \<and> 0 < fr_w img"
  shows "\<exists>s'. process_image ev cfg ft d tot tw th i p s = Inr s'"
proof (cases "imread ev p")
  case None
  then show ?thesis by (simp add: process_image_def)
next
  case (Some raw)
  from assms(5) Some have "0 < fr_h raw" "0 < fr_w raw" by blast+
  from resize_image_total [OF this assms(3,4), of "cv_resize ev"] obtain cur where
    r: "resize_image (cv_resize ev) raw tw th = Inr cur" by blast
  have "\<exists>s3. emit_segments ev cfg ft d tot i cur s = Inr s3"
  proof (cases "i = 0")
    case True
    then show ?thesis by (simp add: emit_segments_def)
  next
    case False
    from emit_segments_no_transition [OF assms(1) False, where ev = ev and ft = ft and d = d
        and tot = tot and cur = cur and st = s]
    show ?thesis by blast
  qed
  then obtain s3 where "emit_segments ev cfg ft d tot i cur s = Inr s3" ..
  with Some r assms(2) show ?thesis
    by (simp add: process_image_def py_truediv_def Let_def)
qed

lemma process_images_complete:
  assumes "transition_frames (transition_duration cfg) (frame_rate cfg) = 0"
    and "tot \<noteq> 0" and "0 < tw" and "0 < th"
    and "\<forall>q img. imread ev q = Some img \<longrightarrow> 0 < fr_h img \<and> 0 < fr_w img"
  shows "\<exists>s'. process_images ev cfg ft d tot tw th i ps s = Inr s'"
proof (induction ps arbitrary: i s)
  case Nil
  show ?case by simp
next
  case (Cons p ps)
  from process_image_complete [OF assms, where ft = ft and d = d and i = i and p = p and s = s]
  obtain s1 where
    "process_image ev cfg ft d tot tw th i p s = Inr s1" by blast
  with Cons [of "Suc i" s1] show ?case by simp
qed

text \<open>
  C10. When \<open>int (transition_duration * frame_rate) = 0\<close>, the transition loop runs over
  the empty range: it returns the state unchanged, without evaluating the progress
  division; the segments of a later image are then its display copies only; and a
  feasible build whose first image is decoded (at least 2 pixels wide, so that the canvas
  height is positive), whose writer opens, whose frame budget is not 0 and whose decoded
  images are non-empty returns normally.
\<close>

theorem zero_transition_frames:
  assumes "transition_frames (transition_duration cfg) (frame_rate cfg) = 0"
  shows "emit_transition rs prev cur kind
             (transition_frames (transition_duration cfg) (frame_rate cfg)) tot
             [0..<nat (transition_frames (transition_duration cfg) (frame_rate cfg))] st = Inr st
       \<and> (i \<noteq> 0 \<longrightarrow>
            (\<exists>st1. emit_segments ev cfg ft d tot i cur st
                      = Inr (emit_copies (nat (frames_per_image d (frame_rate cfg))) cur tot st1)
                  \<and> written st1 = written st \<and> frame_count st1 = frame_count st))
       \<and> (compute_image_duration (video_duration cfg) (transition_duration cfg)
              (length (p0 # rest)) = Inr d0
            \<and> imread ev p0 = Some img0 \<and> 2 \<le> fr_w img0 \<and> writer_opened ev
            \<and> total_frames (video_duration cfg) (frame_rate cfg) \<noteq> 0
            \<and> (\<forall>q img. imread ev q = Some img \<longrightarrow> 0 < fr_h img \<and> 0 < fr_w img)
          \<longrightarrow> (\<exists>s. create_slideshow ev cfg (p0 # rest) = Inr s))"
proof (intro conjI impI)
  show "emit_transition rs prev cur kind
             (transition_frames (transition_duration cfg) (frame_rate cfg)) tot
             [0..<nat (transition_frames (transition_duration cfg) (frame_rate cfg))] st = Inr st"
    by (simp add: assms)
next
  assume "i \<noteq> 0"
  from emit_segments_no_transition [OF assms this]
  show "\<exists>st1. emit_segments ev cfg ft d tot i cur st
                      = Inr (emit_copies (nat (frames_per_image d (frame_rate cfg))) cur tot st1)
                  \<and> written st1 = written st \<and> frame_count st1 = frame_count st" .
next
  assume h: "compute_image_duration (video_duration cfg) (transition_duration cfg)
              (length (p0 # rest)) = Inr d0
            \<and> imread ev p0 = Some img0 \<and> 2 \<le> fr_w img0 \<and> writer_opened ev
            \<and> total_frames (video_duration cfg) (frame_rate cfg) \<noteq> 0
            \<and> (\<forall>q img. imread ev q = Some img \<longrightarrow> 0 < fr_h img \<and> 0 < fr_w img)"
  let ?tot = "total_frames (video_duration cfg) (frame_rate cfg)"
  define ft where "ft = (if transition_type cfg = ''random'' then None
             else (case TRANSITIONS (transition_type cfg) of Some t \<Rightarrow> Some t
                   | None \<Rightarrow> Some 0))"
  from h have tw: "0 < int (fr_w img0)" and th: "0 < target_height (fr_w img0)"
    by (simp_all add: target_height_pos)
  from h have imgs: "\<forall>q img. imread ev q = Some img \<longrightarrow> 0 < fr_h img \<and> 0 < fr_w img"
    by blast
  from h have tot: "?tot \<noteq> 0" by simp
  from process_images_complete [OF assms tot tw th imgs, where ft = ft and d = d0 and i = 0
      and ps = "p0 # rest" and s = initial_state]
  obtain s where run: "process_images ev cfg ft d0 ?tot (int (fr_w img0))
      (target_height (fr_w img0)) 0 (p0 # rest) initial_state = Inr s"
    by blast
  have fr: "frame_rate cfg \<noteq> 0"
  proof
    assume "frame_rate cfg = 0"
    then have "?tot = 0" by (simp add: total_frames_def py_int_def)
    with tot show False by simp
  qed
  from h run fr have "create_slideshow ev cfg (p0 # rest) = Inr s"
    unfolding create_slideshow_def Let_def ft_def [symmetric]
    by (simp add: py_truediv_def)
  then show "\<exists>s. create_slideshow ev cfg (p0 # rest) = Inr s" ..
qed


theorem zero_transition_frames_witness:
  "transition_frames (transition_duration (sample_config (1 / 4) 3 2 ''fade''))
     (frame_rate (sample_config (1 / 4) 3 2 ''fade'')) = 0
   \<and> compute_image_duration (video_duration (sample_config (1 / 4) 3 2 ''fade''))
        (transition_duration (sample_config (1 / 4) 3 2 ''fade''))
        (length (''a.png'' # [''b.png''])) = Inr (11 / 8)
   \<and> imread sample_env ''a.png'' = Some img_a \<and> 2 \<le> fr_w img_a \<and> writer_opened sample_env
   \<and> total_frames (video_duration (sample_config (1 / 4) 3 2 ''fade''))
        (frame_rate (sample_config (1 / 4) 3 2 ''fade'')) = 6
   \<and> (\<exists>s. create_slideshow sample_env (sample_config (1 / 4) 3 2 ''fade'')
             (''a.png'' # [''b.png'']) = Inr s)
   \<and> emit_transition nearest_resize (Some img_a) img_a 0
         (transition_frames (transition_duration (sample_config (1 / 4) 3 2 ''fade''))
            (frame_rate (sample_config (1 / 4) 3 2 ''fade''))) 6
         [0..<nat (transition_frames (transition_duration (sample_config (1 / 4) 3 2 ''fade''))
            (frame_rate (sample_config (1 / 4) 3 2 ''fade'')))] initial_state
       = Inr initial_state
   \<and> (1::nat) \<noteq> 0
   \<and> (\<exists>st1. emit_segments sample_env (sample_config (1 / 4) 3 2 ''fade'') (Some 0) (11 / 8) 6 1
               img_a initial_state
             = Inr (emit_copies (nat (frames_per_image (11 / 8)
                                         (frame_rate (sample_config (1 / 4) 3 2 ''fade''))))
                      img_a 6 st1)
           \<and> written st1 = written initial_state)"
proof -
  let ?cfg = "sample_config (1 / 4) 3 2 ''fade''"
  have tf: "transition_frames (transition_duration ?cfg) (frame_rate ?cfg) = 0"
    by (simp add: sample_config_def transition_frames_def py_int_def floor_numeral_div)
  have d: "compute_image_duration (video_duration ?cfg) (transition_duration ?cfg)
        (length (''a.png'' # [''b.png''])) = Inr (11 / 8)"
    by (simp add: sample_config_def compute_image_duration_def remaining_time_def
        total_transition_time_def total_transitions_def py_truediv_def)
  have first: "imread sample_env ''a.png'' = Some img_a \<and> 2 \<le> fr_w img_a
      \<and> writer_opened sample_env"
    by (simp add: sample_env_def img_a_def)
  have tot: "total_frames (video_duration ?cfg) (frame_rate ?cfg) = 6"
    by (simp add: sample_config_def total_frames_def py_int_def)
  have imgs: "\<forall>q img. imread sample_env q = Some img \<longrightarrow> 0 < fr_h img \<and> 0 < fr_w img"
    by (auto simp: sample_env_def img_a_def img_b_def split: if_splits)
  from zero_transition_frames [OF tf, where ev = sample_env and ?p0.0 = "''a.png''"
      and rest = "[''b.png'']" and ?d0.0 = "11 / 8" and ?img0.0 = img_a] d first tot imgs
  have "\<exists>s. create_slideshow sample_env ?cfg (''a.png'' # [''b.png'']) = Inr s"
    by simp
  moreover
  from zero_transition_frames [OF tf, where rs = nearest_resize and prev = "Some img_a"
      and cur = img_a and kind = 0 and tot = 6 and st = initial_state]
  have "emit_transition nearest_resize (Some img_a) img_a 0
         (transition_frames (transition_duration ?cfg) (frame_rate ?cfg)) 6
         [0..<nat (transition_frames (transition_duration ?cfg) (frame_rate ?cfg))] initial_state
       = Inr initial_state"
    by blast
  moreover
  have one: "(1::nat) \<noteq> 0" by simp
  from zero_transition_frames [OF tf, where i = 1 and ev = sample_env and ft = "Some 0"
      and d = "11 / 8" and tot = 6 and cur = img_a and st = initial_state] one
  have "\<exists>st1. emit_segments sample_env ?cfg (Some 0) (11 / 8) 6 1 img_a initial_state
             = Inr (emit_copies (nat (frames_per_image (11 / 8) (frame_rate ?cfg))) img_a 6 st1)
           \<and> written st1 = written initial_state"
    by blast
  ultimately show ?thesis using tf d first tot one by blast
qed


end
